theory Spec2Isabelle
  imports Main
begin

section \<open>Values shared by the services\<close>

text \<open>
  Every failure of the services is a JavaScript exception.  The services only ever
  construct \<open>new Error(message)\<close>; the runtime adds \<open>TypeError\<close> when a method is
  called on \<open>undefined\<close>, and the cron library's use of the platform's date formatting
  adds \<open>RangeError\<close> for a time zone it does not know.  An exception is therefore a
  tagged message.
\<close>

datatype error = Error string | TypeError string | RangeError string

fun message :: "error \<Rightarrow> string" where
  "message (Error m) = m"
| "message (TypeError m) = m"
| "message (RangeError m) = m"

text \<open>The message of the \<open>TypeError\<close> thrown by \<open>undefined.substring\<close>.\<close>

definition undefined_substring :: string where
  "undefined_substring =
     ''Cannot read properties of undefined (reading '' @ [CHR 0x27] @ ''substring'' @
       [CHR 0x27] @ '')''"

text \<open>
  A property that may be absent is an \<open>option\<close>: \<open>None\<close> is \<open>undefined\<close>.
  A string property is truthy when it is present and not empty.
\<close>

definition truthy :: "string option \<Rightarrow> bool" where
  "truthy v = (case v of None \<Rightarrow> False | Some s \<Rightarrow> s \<noteq> [])"

text \<open>
  \<open>String.prototype.toLowerCase\<close> on the ASCII range (the provider names and the
  names accepted by the option schema are ASCII).
\<close>

definition toLowerCase_char :: "char \<Rightarrow> char" where
  "toLowerCase_char c =
     (case map_of (zip ''ABCDEFGHIJKLMNOPQRSTUVWXYZ'' ''abcdefghijklmnopqrstuvwxyz'') c of
        None \<Rightarrow> c
      | Some l \<Rightarrow> l)"

definition toLowerCase :: "string \<Rightarrow> string" where
  "toLowerCase s = map toLowerCase_char s"

text \<open>\<open>Array.prototype.join\<close> on strings.\<close>

fun join :: "string \<Rightarrow> string list \<Rightarrow> string" where
  "join sep [] = []"
| "join sep [x] = x"
| "join sep (x # y # ys) = x @ sep @ join sep (y # ys)"

text \<open>\<open>s.substring(0, k)\<close> for a string \<open>s\<close> and \<open>0 \<le> k\<close>.\<close>

definition substring0 :: "nat \<Rightarrow> string \<Rightarrow> string" where
  "substring0 k s = take k s"

section \<open>Notifications and options\<close>

text \<open>
  The fields of a notification that the dispatch code reads: \<open>title\<close> and \<open>body\<close>
  (both may be absent on a caller's object: \<open>validateNotification\<close> tests for that),
  and the three targeting fields that \<open>FirebaseProvider.canHandle\<close> inspects.
\<close>

record notification =
  title :: "string option"
  body :: "string option"
  token :: "string option"
  tokens :: "string list option"
  topic :: "string option"

record options =
  provider :: "string option"
  enableFailover :: "bool option"
  timeout :: "nat option"

section \<open>Providers (BaseProvider and its three variants)\<close>

datatype variant = Firebase | OneSignal | Pusher

type_synonym receipt = string

text \<open>
  A provider object.  \<open>name\<close>, \<open>enabled\<close>, \<open>retryAttempts\<close> and \<open>retryDelay\<close> are the
  fields set by the \<open>BaseProvider\<close> constructor, \<open>initialized\<close> is the extra flag of
  \<open>FirebaseProvider\<close>.  The transport behind \<open>send\<close> is outside the code under
  study: \<open>send_outcome p k n\<close> is what the \<open>k\<close>-th invocation of \<open>send\<close> on this
  provider does with notification \<open>n\<close> (\<open>Inl e\<close>: it throws \<open>e\<close>), and
  \<open>send_calls\<close> counts the invocations made so far.  \<open>delays\<close> logs, in order, the
  arguments of the \<open>delay\<close> calls that were awaited.
\<close>

record provider =
  variant :: variant
  name :: string
  enabled :: bool
  initialized :: bool
  retryAttempts :: nat
  retryDelay :: nat
  send_outcome :: "nat \<Rightarrow> notification \<Rightarrow> error + receipt"
  send_calls :: nat
  delays :: "nat list"

definition getName :: "provider \<Rightarrow> string" where
  "getName p = name p"

text \<open>\<open>isEnabled\<close>: \<open>BaseProvider\<close> returns \<open>enabled\<close>; \<open>FirebaseProvider\<close> overrides it.\<close>

definition isEnabled :: "provider \<Rightarrow> bool" where
  "isEnabled p =
     (case variant p of
        Firebase \<Rightarrow> enabled p \<and> initialized p
      | OneSignal \<Rightarrow> enabled p
      | Pusher \<Rightarrow> enabled p)"

text \<open>
  \<open>canHandle\<close>: Firebase needs \<open>token\<close>, \<open>tokens\<close> or \<open>topic\<close> to be truthy (an array
  is truthy even when empty); OneSignal and Pusher always return true.
\<close>

definition canHandle :: "provider \<Rightarrow> notification \<Rightarrow> bool" where
  "canHandle p n =
     (case variant p of
        Firebase \<Rightarrow> truthy (token n) \<or> tokens n \<noteq> None \<or> truthy (topic n)
      | OneSignal \<Rightarrow> True
      | Pusher \<Rightarrow> True)"

text \<open>\<open>validateNotification\<close> of \<open>BaseProvider\<close>; no variant overrides it.\<close>

definition validateNotification :: "provider \<Rightarrow> notification \<Rightarrow> error + bool" where
  "validateNotification p n =
     (if \<not> truthy (title n) \<and> \<not> truthy (body n)
      then Inl (Error ''Notification must have either title or body'')
      else Inr True)"

text \<open>One invocation of \<open>send\<close>: the outcome of this call, and the provider afterwards.\<close>

definition send :: "provider \<Rightarrow> notification \<Rightarrow> (error + receipt) \<times> provider" where
  "send p n = (send_outcome p (send_calls p) n, p\<lparr>send_calls := Suc (send_calls p)\<rparr>)"

definition delay :: "nat \<Rightarrow> provider \<Rightarrow> provider" where
  "delay ms p = p\<lparr>delays := delays p @ [ms]\<rparr>"

text \<open>
  \<open>sendWithRetry\<close>: the loop \<open>for (let i = 0; i < attempts; i++)\<close>, started at \<open>i\<close>.
  A successful \<open>send\<close> returns its receipt; a failed one re-throws when
  \<open>i === attempts - 1\<close> and otherwise awaits \<open>delay(retryDelay * (i + 1))\<close>.  When the
  loop ends without entering its body the function returns \<open>undefined\<close> (\<open>None\<close>).
\<close>

function sendWithRetry_from ::
  "nat \<Rightarrow> nat \<Rightarrow> provider \<Rightarrow> notification \<Rightarrow> (error + receipt option) \<times> provider" where
  "sendWithRetry_from i attempts p n =
     (if i < attempts then
        (case send p n of
           (Inr r, p') \<Rightarrow> (Inr (Some r), p')
         | (Inl e, p') \<Rightarrow>
             if i = attempts - 1 then (Inl e, p')
             else sendWithRetry_from (i + 1) attempts (delay (retryDelay p' * (i + 1)) p') n)
      else (Inr None, p))"
  by pat_completeness auto
termination
  by (relation "measure (\<lambda>(i, attempts, p, n). attempts - i)") auto

definition sendWithRetry ::
  "provider \<Rightarrow> notification \<Rightarrow> nat \<Rightarrow> (error + receipt option) \<times> provider" where
  "sendWithRetry p n attempts = sendWithRetry_from 0 attempts p n"

section \<open>NotificationService\<close>

text \<open>An element of the local array \<open>errors\<close> of \<open>sendNotification\<close>.\<close>

record error_entry =
  entry_provider :: string
  entry_error :: string
  skipped :: bool

text \<open>
  The object returned by \<open>sendNotification\<close>.  The explicit-provider path leaves
  \<open>errors\<close>, \<open>skippedProviders\<close> and \<open>usedProvider\<close> out (\<open>None\<close>); the failover path
  sets \<open>errors\<close> to \<open>undefined\<close> when nothing was recorded.
\<close>

record send_result =
  success :: bool
  results :: "receipt option list"
  errors :: "error_entry list option"
  totalProviders :: nat
  successfulProviders :: nat
  failedProviders :: nat
  skippedProviders :: "nat option"
  usedProvider :: "string option"

text \<open>\<open>Array.prototype.find\<close>, as the position of the element found.\<close>

fun findIndex :: "('a \<Rightarrow> bool) \<Rightarrow> 'a list \<Rightarrow> nat option" where
  "findIndex P [] = None"
| "findIndex P (x # xs) = (if P x then Some 0 else map_option Suc (findIndex P xs))"

text \<open>
  The loop \<open>for (const provider of this.providers)\<close> of \<open>sendNotification\<close>, run on
  the providers still to be visited with the entries recorded so far.  It returns the
  name of the provider used and its receipt when a \<open>sendWithRetry\<close> succeeded
  (\<open>None\<close> when the loop ran to its end), the array \<open>errors\<close> at that moment, and the
  visited providers in their new state followed by the ones never reached.
\<close>

fun tryProviders ::
  "notification \<Rightarrow> error_entry list \<Rightarrow> provider list \<Rightarrow>
     (string \<times> receipt option) option \<times> error_entry list \<times> provider list" where
  "tryProviders n errs [] = (None, errs, [])"
| "tryProviders n errs (p # ps) =
     (if \<not> isEnabled p then
        (case tryProviders n
                (errs @ [\<lparr>entry_provider = getName p, entry_error = ''Provider is disabled'',
                          skipped = True\<rparr>]) ps of
           (out, errs', ps') \<Rightarrow> (out, errs', p # ps'))
      else if \<not> canHandle p n then
        (case tryProviders n
                (errs @ [\<lparr>entry_provider = getName p,
                          entry_error = ''Provider cannot handle this notification type'',
                          skipped = True\<rparr>]) ps of
           (out, errs', ps') \<Rightarrow> (out, errs', p # ps'))
      else
        (case sendWithRetry p n (retryAttempts p) of
           (Inr result, p') \<Rightarrow> (Some (getName p', result), errs, p' # ps)
         | (Inl e, p') \<Rightarrow>
             (case tryProviders n
                     (errs @ [\<lparr>entry_provider = getName p', entry_error = message e,
                               skipped = False\<rparr>]) ps of
                (out, errs', ps') \<Rightarrow> (out, errs', p' # ps'))))"

text \<open>The branch \<open>if (options.provider)\<close> of \<open>sendNotification\<close>.\<close>

definition sendViaRequested ::
  "provider list \<Rightarrow> notification \<Rightarrow> string \<Rightarrow> (error + send_result) \<times> provider list" where
  "sendViaRequested providers n requested =
     (case findIndex (\<lambda>p. toLowerCase (getName p) = toLowerCase requested) providers of
        None \<Rightarrow>
          (Inl (Error (''Provider '' @ requested @ '' not found or not enabled'')), providers)
      | Some i \<Rightarrow>
          (case sendWithRetry (providers ! i) n (retryAttempts (providers ! i)) of
             (Inr result, p') \<Rightarrow>
               (Inr \<lparr>success = True, results = [result], errors = None, totalProviders = 1,
                     successfulProviders = 1, failedProviders = 0, skippedProviders = None,
                     usedProvider = None\<rparr>,
                providers[i := p'])
           | (Inl e, p') \<Rightarrow>
               (Inl (Error (''Failed to send via '' @ requested @ '': '' @ message e)),
                providers[i := p'])))"

text \<open>The failover part of \<open>sendNotification\<close>: the loop and what follows it.\<close>

definition sendWithFailover ::
  "provider list \<Rightarrow> notification \<Rightarrow> (error + send_result) \<times> provider list" where
  "sendWithFailover providers n =
     (case tryProviders n [] providers of
        (Some (used, result), errs, ps') \<Rightarrow>
          (Inr \<lparr>success = True, results = [result],
                errors = (if length errs > 0 then Some errs else None),
                totalProviders = length (filter (\<lambda>p. canHandle p n) ps'),
                successfulProviders = 1,
                failedProviders = length (filter (\<lambda>e. \<not> skipped e) errs),
                skippedProviders = Some (length (filter (\<lambda>e. skipped e) errs)),
                usedProvider = Some used\<rparr>,
           ps')
      | (None, errs, ps') \<Rightarrow>
          (Inl (Error (''All providers failed: '' @
                       join ''; '' (map (\<lambda>e. entry_provider e @ '': '' @ entry_error e) errs))),
           ps'))"

definition sendNotification ::
  "provider list \<Rightarrow> notification \<Rightarrow> options \<Rightarrow> (error + send_result) \<times> provider list" where
  "sendNotification providers n opts =
     (if length providers = 0 then
        (Inl (Error ''No notification providers available''), providers)
      else
        (case provider opts of
           None \<Rightarrow> sendWithFailover providers n
         | Some requested \<Rightarrow>
             if requested \<noteq> [] then sendViaRequested providers n requested
             else sendWithFailover providers n))"

text \<open>
  \<open>sendBulkNotifications\<close>.  The display copy of a notification that both the
  \<open>try\<close> block and the \<open>catch\<close> handler build calls \<open>substring\<close> on
  \<open>notification.body\<close>, which throws a \<open>TypeError\<close> when the body is absent.
\<close>

record notification_summary =
  summary_title :: "string option"
  summary_body :: string

record bulk_item =
  index :: nat
  item_notification :: notification_summary
  item_result :: "send_result option"
  item_error :: "string option"
  item_success :: bool

record bulk_result =
  total :: nat
  successful :: nat
  failed :: nat
  bulk_results :: "bulk_item list"

definition summary :: "nat \<Rightarrow> notification \<Rightarrow> error + notification_summary" where
  "summary k n =
     (case body n of
        None \<Rightarrow> Inl (TypeError undefined_substring)
      | Some b \<Rightarrow>
          Inr \<lparr>summary_title = title n,
                summary_body = substring0 k b @ (if length b > k then ''...'' else [])\<rparr>)"

text \<open>
  The loop \<open>for (let i = 0; i < notifications.length; i++)\<close>, on the notifications
  from position \<open>i\<close> on, with the locals \<open>results\<close>, \<open>totalSuccessful\<close> and
  \<open>totalFailed\<close>.  An exception of the \<open>try\<close> block (from \<open>sendNotification\<close> or
  from building the item) enters the handler; an exception of the handler leaves the
  function.
\<close>

fun sendBulk_from ::
  "nat \<Rightarrow> notification list \<Rightarrow> options \<Rightarrow> bulk_item list \<Rightarrow> nat \<Rightarrow> nat \<Rightarrow> provider list \<Rightarrow>
     (error + bulk_item list \<times> nat \<times> nat) \<times> provider list" where
  "sendBulk_from i [] opts res ok bad providers = (Inr (res, ok, bad), providers)"
| "sendBulk_from i (n # ns) opts res ok bad providers =
     (case sendNotification providers n opts of
        (sent, providers') \<Rightarrow>
          (case (case sent of
                   Inl e \<Rightarrow> Inl e
                 | Inr result \<Rightarrow>
                     (case summary 50 n of
                        Inl e \<Rightarrow> Inl e
                      | Inr s \<Rightarrow>
                          Inr \<lparr>index = i, item_notification = s, item_result = Some result,
                                item_error = None, item_success = True\<rparr>)) of
             Inr item \<Rightarrow> sendBulk_from (i + 1) ns opts (res @ [item]) (ok + 1) bad providers'
           | Inl e \<Rightarrow>
               (case summary 50 n of
                  Inl e' \<Rightarrow> (Inl e', providers')
                | Inr s \<Rightarrow>
                    sendBulk_from (i + 1) ns opts
                      (res @ [\<lparr>index = i, item_notification = s, item_result = None,
                                item_error = Some (message e), item_success = False\<rparr>])
                      ok (bad + 1) providers')))"

definition sendBulkNotifications ::
  "provider list \<Rightarrow> notification list \<Rightarrow> options \<Rightarrow> (error + bulk_result) \<times> provider list" where
  "sendBulkNotifications providers ns opts =
     (case sendBulk_from 0 ns opts [] 0 0 providers of
        (Inl e, providers') \<Rightarrow> (Inl e, providers')
      | (Inr (res, ok, bad), providers') \<Rightarrow>
          (Inr \<lparr>total = length ns, successful = ok, failed = bad, bulk_results = res\<rparr>,
           providers'))"

definition updateProviderStatus ::
  "provider list \<Rightarrow> string \<Rightarrow> bool \<Rightarrow> bool \<times> provider list" where
  "updateProviderStatus providers providerName en =
     (case findIndex (\<lambda>p. toLowerCase (getName p) = toLowerCase providerName) providers of
        Some i \<Rightarrow> (True, providers[i := (providers ! i)\<lparr>enabled := en\<rparr>])
      | None \<Rightarrow> (False, providers))"

text \<open>\<open>validateNotificationForProviders\<close>: the local \<open>validation\<close> and the loop filling it.\<close>

record provider_report =
  report_name :: string
  report_canHandle :: bool
  report_valid :: bool
  report_error :: "string option"

record validation =
  valid :: bool
  validation_providers :: "provider_report list"
  validation_errors :: "(string \<times> string) list"

fun validate_from :: "notification \<Rightarrow> validation \<Rightarrow> provider list \<Rightarrow> validation" where
  "validate_from n v [] = v"
| "validate_from n v (p # ps) =
     (if \<not> isEnabled p then validate_from n v ps
      else
        (case validateNotification p n of
           Inr ok \<Rightarrow>
             validate_from n
               (v\<lparr>validation_providers := validation_providers v @
                     [\<lparr>report_name = getName p, report_canHandle = canHandle p n,
                       report_valid = True, report_error = None\<rparr>],
                   valid := (if canHandle p n then True else valid v)\<rparr>) ps
         | Inl e \<Rightarrow>
             validate_from n
               (v\<lparr>validation_providers := validation_providers v @
                     [\<lparr>report_name = getName p, report_canHandle = False,
                       report_valid = False, report_error = Some (message e)\<rparr>],
                   validation_errors := validation_errors v @ [(getName p, message e)]\<rparr>) ps))"

definition validateNotificationForProviders :: "provider list \<Rightarrow> notification \<Rightarrow> validation" where
  "validateNotificationForProviders providers n =
     validate_from n \<lparr>valid = False, validation_providers = [], validation_errors = []\<rparr> providers"

section \<open>SchedulerService\<close>

subsection \<open>The time pattern\<close>

text \<open>
  The regular expression \<open>/^([0-1]?[0-9]|2[0-3]):[0-5][0-9]$/\<close> is built from
  character classes, sequence, alternative and \<open>?\<close>.  \<open>test\<close> on a pattern anchored
  at both ends (no flags) asks whether the whole string belongs to its language; the
  string is consumed one character at a time, keeping the pattern of what may follow.
\<close>

datatype pattern =
  Fail
  | Empty
  | OneOf "char list"
  | Then pattern pattern
  | Or pattern pattern
  | Optional pattern

fun acceptsEmpty :: "pattern \<Rightarrow> bool" where
  "acceptsEmpty Fail = False"
| "acceptsEmpty Empty = True"
| "acceptsEmpty (OneOf cs) = False"
| "acceptsEmpty (Then a b) = (acceptsEmpty a \<and> acceptsEmpty b)"
| "acceptsEmpty (Or a b) = (acceptsEmpty a \<or> acceptsEmpty b)"
| "acceptsEmpty (Optional a) = True"

fun after :: "char \<Rightarrow> pattern \<Rightarrow> pattern" where
  "after c Fail = Fail"
| "after c Empty = Fail"
| "after c (OneOf cs) = (if c \<in> set cs then Empty else Fail)"
| "after c (Then a b) =
     (if acceptsEmpty a then Or (Then (after c a) b) (after c b) else Then (after c a) b)"
| "after c (Or a b) = Or (after c a) (after c b)"
| "after c (Optional a) = after c a"

fun test :: "pattern \<Rightarrow> string \<Rightarrow> bool" where
  "test r [] = acceptsEmpty r"
| "test r (c # cs) = test (after c r) cs"

definition digits :: "char list" where
  "digits = ''0123456789''"

definition time_pattern :: pattern where
  "time_pattern =
     Then (Or (Then (Optional (OneOf ''01'')) (OneOf digits)) (Then (OneOf ''2'') (OneOf ''0123'')))
       (Then (OneOf '':'') (Then (OneOf ''012345'') (OneOf digits)))"

subsection \<open>Numbers and strings\<close>

text \<open>\<open>Number\<close> on a string of decimal digits, and a natural number in a template literal.\<close>

definition digit_value :: "char \<Rightarrow> nat" where
  "digit_value c = (case findIndex (\<lambda>d. d = c) digits of None \<Rightarrow> 0 | Some k \<Rightarrow> k)"

definition Number :: "string \<Rightarrow> nat" where
  "Number s = foldl (\<lambda>a c. 10 * a + digit_value c) 0 s"

function show_nat :: "nat \<Rightarrow> string" where
  "show_nat k = (if k < 10 then [digits ! k] else show_nat (k div 10) @ [digits ! (k mod 10)])"
  by pat_completeness auto
termination
  by (relation "measure (\<lambda>k. k)") auto

text \<open>
  \<open>time.split(':')\<close> destructured into its first two elements; the pattern test that
  precedes it leaves exactly one colon in \<open>time\<close>.
\<close>

definition split_time :: "string \<Rightarrow> string \<times> string" where
  "split_time t =
     (takeWhile (\<lambda>c. c \<noteq> CHR '':'') t, drop 1 (dropWhile (\<lambda>c. c \<noteq> CHR '':'') t))"

subsection \<open>Jobs and the registry\<close>

record schedule =
  time :: "string option"
  timezone :: "string option"
  frequency :: "string option"

text \<open>
  The cron task of a job: the expression and zone it was created with, the variables
  its callback closes over, and whether it has been started and not stopped.
\<close>

record task =
  task_cronExpression :: string
  task_timezone :: string
  task_jobId :: string
  task_frequency :: string
  task_notification :: notification
  task_options :: options
  task_running :: bool

record job_schedule =
  sched_time :: string
  sched_timezone :: string
  sched_frequency :: string
  sched_cronExpression :: string
  sched_scheduledFor :: string

record job =
  id :: string
  job_notification :: notification_summary
  job_schedule :: job_schedule
  job_task :: task
  createdAt :: string
  job_options :: options

text \<open>
  \<open>this.jobs\<close> is a JavaScript \<open>Map\<close>: keys are unique and keep their insertion
  order.  \<open>set\<close> replaces the value of a key that is present and appends a new key;
  \<open>delete\<close> removes the key; \<open>get\<close> is \<open>map_of\<close>.
\<close>

fun jobs_set :: "string \<Rightarrow> job \<Rightarrow> (string \<times> job) list \<Rightarrow> (string \<times> job) list" where
  "jobs_set k v [] = [(k, v)]"
| "jobs_set k v ((k', v') # m) = (if k' = k then (k, v) # m else (k', v') # jobs_set k v m)"

definition jobs_delete :: "string \<Rightarrow> (string \<times> job) list \<Rightarrow> (string \<times> job) list" where
  "jobs_delete k m = filter (\<lambda>(k', v). k' \<noteq> k) m"

record scheduler =
  jobs :: "(string \<times> job) list"
  running :: bool

definition SchedulerService_new :: scheduler where
  "SchedulerService_new = \<lparr>jobs = [], running = False\<rparr>"

definition start :: "scheduler \<Rightarrow> scheduler" where
  "start s = s\<lparr>running := True\<rparr>"

text \<open>
  \<open>stop\<close> stops the task of every job, clears the registry and resets the flag.  A
  task lives in its job only, so the stopped tasks leave with the registry.
\<close>

definition stop :: "scheduler \<Rightarrow> scheduler" where
  "stop s = s\<lparr>jobs := [], running := False\<rparr>"

definition isRunning :: "scheduler \<Rightarrow> bool" where
  "isRunning s = running s"

definition removeJob :: "scheduler \<Rightarrow> string \<Rightarrow> bool \<times> scheduler" where
  "removeJob s jobId =
     (case map_of (jobs s) jobId of
        Some j \<Rightarrow> (True, s\<lparr>jobs := jobs_delete jobId (jobs s)\<rparr>)
      | None \<Rightarrow> (False, s))"

subsection \<open>Scheduling\<close>

text \<open>
  What \<open>scheduleNotification\<close> reads from outside: \<open>Date.now()\<close>, the nine characters
  taken from \<open>Math.random()\<close>, the day of month, zero-based month and formatted text
  of the target instant that the date library computes for a zone, hour and minute,
  and the ISO text of \<open>new Date()\<close>.  The date library and the cron library are not
  part of the code under study.  The date library's calls return for every zone name
  (an unknown one is logged and read as UTC).  The cron library may throw, at
  \<open>cron.schedule\<close> or at \<open>task.start()\<close> depending on its version, when it is given
  a time zone it does not know: \<open>cron_schedule\<close> and \<open>task_start\<close> give, for a cron
  expression and a zone, the exception thrown there (\<open>None\<close>: the call returns).
\<close>

record env =
  now_ms :: nat
  random_part :: string
  target :: "string \<Rightarrow> nat \<Rightarrow> nat \<Rightarrow> nat \<times> nat \<times> string"
  created_iso :: string
  cron_schedule :: "string \<Rightarrow> string \<Rightarrow> error option"
  task_start :: "string \<Rightarrow> string \<Rightarrow> error option"

record schedule_result =
  jobId :: string
  scheduledFor :: string
  result_frequency :: string
  result_timezone :: string
  cronExpression :: string

text \<open>
  The destructuring \<open>const { time, timezone = 'UTC', frequency = 'once' } = schedule\<close>:
  a default applies when the property is absent.
\<close>

definition timezone_of :: "schedule \<Rightarrow> string" where
  "timezone_of sch = (case timezone sch of None \<Rightarrow> ''UTC'' | Some z \<Rightarrow> z)"

definition frequency_of :: "schedule \<Rightarrow> string" where
  "frequency_of sch = (case frequency sch of None \<Rightarrow> ''once'' | Some f \<Rightarrow> f)"

definition time_of :: "schedule \<Rightarrow> string" where
  "time_of sch = (case time sch of None \<Rightarrow> [] | Some t \<Rightarrow> t)"

text \<open>The negation of \<open>!time || !/^([0-1]?[0-9]|2[0-3]):[0-5][0-9]$/.test(time)\<close>.\<close>

definition time_accepted :: "schedule \<Rightarrow> bool" where
  "time_accepted sch = (truthy (time sch) \<and> test time_pattern (time_of sch))"

definition hours_of :: "schedule \<Rightarrow> nat" where
  "hours_of sch = Number (fst (split_time (time_of sch)))"

definition minutes_of :: "schedule \<Rightarrow> nat" where
  "minutes_of sch = Number (snd (split_time (time_of sch)))"

definition new_jobId :: "env \<Rightarrow> string" where
  "new_jobId e = ''notif_'' @ show_nat (now_ms e) @ ''_'' @ random_part e"

text \<open>
  \<open>cronExpression\<close> and \<open>scheduledFor\<close>: every frequency other than \<open>'daily'\<close> takes
  the one-time branch.
\<close>

definition trigger_rule :: "env \<Rightarrow> schedule \<Rightarrow> string \<times> string" where
  "trigger_rule e sch =
     (if frequency_of sch = ''daily'' then
        (show_nat (minutes_of sch) @ '' '' @ show_nat (hours_of sch) @ '' * * *'', ''daily'')
      else
        (case target e (timezone_of sch) (hours_of sch) (minutes_of sch) of
           (day, month, formatted) \<Rightarrow>
             (show_nat (minutes_of sch) @ '' '' @ show_nat (hours_of sch) @ '' '' @
                show_nat day @ '' '' @ show_nat (month + 1) @ '' *'',
              formatted)))"

text \<open>The task returned by \<open>cron.schedule(..., { scheduled: false, timezone })\<close>.\<close>

definition new_task :: "env \<Rightarrow> notification \<Rightarrow> schedule \<Rightarrow> options \<Rightarrow> task" where
  "new_task e n sch opts =
     \<lparr>task_cronExpression = fst (trigger_rule e sch), task_timezone = timezone_of sch,
      task_jobId = new_jobId e, task_frequency = frequency_of sch, task_notification = n,
      task_options = opts, task_running = False\<rparr>"

text \<open>
  The value stored by \<open>this.jobs.set\<close>, for a notification whose body is \<open>b\<close>; its
  task has been created and not yet started.  \<open>task.start()\<close> then acts on the task
  held by the stored job.
\<close>

definition new_job :: "env \<Rightarrow> notification \<Rightarrow> schedule \<Rightarrow> options \<Rightarrow> string \<Rightarrow> job" where
  "new_job e n sch opts b =
     \<lparr>id = new_jobId e,
      job_notification = \<lparr>summary_title = title n, summary_body = substring0 100 b\<rparr>,
      job_schedule =
        \<lparr>sched_time = time_of sch, sched_timezone = timezone_of sch,
         sched_frequency = frequency_of sch, sched_cronExpression = fst (trigger_rule e sch),
         sched_scheduledFor = snd (trigger_rule e sch)\<rparr>,
      job_task = new_task e n sch opts,
      createdAt = created_iso e,
      job_options = opts\<rparr>"

definition task_started :: "job \<Rightarrow> job" where
  "task_started j = j\<lparr>job_task := (job_task j)\<lparr>task_running := True\<rparr>\<rparr>"

text \<open>
  \<open>scheduleNotification\<close>, in the order of the source: the running flag; the time
  format; \<open>cron.schedule\<close>, which may throw; the job built for \<open>this.jobs.set\<close>, where
  reading \<open>notification.body.substring\<close> throws when the body is absent, before the
  job is stored; \<open>task.start()\<close>, which may throw and then leaves the stored job with
  a task that is not running; the result.
\<close>

definition scheduleNotification ::
  "env \<Rightarrow> scheduler \<Rightarrow> notification \<Rightarrow> schedule \<Rightarrow> options \<Rightarrow>
     (error + schedule_result) \<times> scheduler" where
  "scheduleNotification e s n sch opts =
     (if \<not> running s then (Inl (Error ''Scheduler service is not running''), s)
      else if \<not> time_accepted sch then (Inl (Error ''Invalid time format. Use HH:MM format''), s)
      else
        (case cron_schedule e (fst (trigger_rule e sch)) (timezone_of sch) of
           Some thrown \<Rightarrow> (Inl thrown, s)
         | None \<Rightarrow>
             (case body n of
                None \<Rightarrow> (Inl (TypeError undefined_substring), s)
              | Some b \<Rightarrow>
                  (case task_start e (fst (trigger_rule e sch)) (timezone_of sch) of
                     Some thrown \<Rightarrow>
                       (Inl thrown,
                        s\<lparr>jobs := jobs_set (new_jobId e) (new_job e n sch opts b) (jobs s)\<rparr>)
                   | None \<Rightarrow>
                       (Inr \<lparr>jobId = new_jobId e, scheduledFor = snd (trigger_rule e sch),
                             result_frequency = frequency_of sch,
                             result_timezone = timezone_of sch,
                             cronExpression = fst (trigger_rule e sch)\<rparr>,
                        s\<lparr>jobs :=
                            jobs_set (new_jobId e) (task_started (new_job e n sch opts b))
                              (jobs s)\<rparr>)))))"

text \<open>
  The callback given to \<open>cron.schedule\<close>: it awaits \<open>sendNotification\<close> and, in the
  \<open>try\<close> block after a success as well as in the \<open>catch\<close> handler after a failure,
  removes the job when the closed-over \<open>frequency\<close> is \<open>'once'\<close>.
\<close>

definition task_callback ::
  "task \<Rightarrow> scheduler \<Rightarrow> provider list \<Rightarrow> scheduler \<times> provider list" where
  "task_callback t s providers =
     (case sendNotification providers (task_notification t) (task_options t) of
        (Inr result, providers') \<Rightarrow>
          (if task_frequency t = ''once'' then snd (removeJob s (task_jobId t)) else s, providers')
      | (Inl err, providers') \<Rightarrow>
          (if task_frequency t = ''once'' then snd (removeJob s (task_jobId t)) else s, providers'))"

text \<open>
  The trigger of the job registered under \<open>k\<close> fires: a task that was started and not
  stopped runs its callback.  A job that is no longer registered has had its task
  stopped.
\<close>

definition fire :: "string \<Rightarrow> scheduler \<Rightarrow> provider list \<Rightarrow> scheduler \<times> provider list" where
  "fire k s providers =
     (case map_of (jobs s) k of
        None \<Rightarrow> (s, providers)
      | Some j \<Rightarrow>
          if task_running (job_task j) then task_callback (job_task j) s providers
          else (s, providers))"

text \<open>
  \<open>getJob\<close> and \<open>getActiveJobs\<close> copy the metadata of a job.  \<open>status\<close> comes from the
  cron library's \<open>getStatus\<close> when the task has one (the parameter \<open>getStatus\<close>) and
  is \<open>'unknown'\<close> otherwise.
\<close>

record job_view =
  view_id :: string
  view_notification :: notification_summary
  view_schedule :: job_schedule
  view_createdAt :: string
  status :: string

definition view :: "(task \<Rightarrow> string) option \<Rightarrow> job \<Rightarrow> job_view" where
  "view getStatus j =
     \<lparr>view_id = id j, view_notification = job_notification j, view_schedule = job_schedule j,
      view_createdAt = createdAt j,
      status = (case getStatus of None \<Rightarrow> ''unknown'' | Some f \<Rightarrow> f (job_task j))\<rparr>"

definition getJob :: "(task \<Rightarrow> string) option \<Rightarrow> scheduler \<Rightarrow> string \<Rightarrow> job_view option" where
  "getJob getStatus s k = map_option (view getStatus) (map_of (jobs s) k)"

definition getActiveJobs :: "(task \<Rightarrow> string) option \<Rightarrow> scheduler \<Rightarrow> job_view list" where
  "getActiveJobs getStatus s = map (\<lambda>(k, j). view getStatus j) (jobs s)"

text \<open>
  \<open>validateSchedule\<close>.  Whether a zone name is known is decided by the date library
  (\<open>moment.tz.zone\<close>), here the parameter \<open>zone\<close>.  No function of the repository
  calls \<open>validateSchedule\<close>.
\<close>

definition validateSchedule :: "(string \<Rightarrow> bool) \<Rightarrow> schedule option \<Rightarrow> error + bool" where
  "validateSchedule zone so =
     (case so of
        None \<Rightarrow> Inl (Error ''Schedule must be an object'')
      | Some sch \<Rightarrow>
          if \<not> truthy (time sch) then Inl (Error ''Schedule time is required'')
          else if \<not> test time_pattern (time_of sch)
          then Inl (Error ''Invalid time format. Use HH:MM format'')
          else if \<not> zone (timezone_of sch) then Inl (Error ''Invalid timezone'')
          else if frequency_of sch \<notin> set [''once'', ''daily'']
          then Inl (Error ''Frequency must be \"once\" or \"daily\"'')
          else Inr True)"

subsection \<open>Sequences of scheduler operations\<close>

text \<open>
  The operations that can change a scheduler, as the routes and the timers invoke
  them, acting on the scheduler and the providers of the notification service.
\<close>

datatype sched_op =
  Start
  | Stop
  | ScheduleNotification env notification schedule options
  | RemoveJob string
  | Fire string

fun apply_op :: "scheduler \<times> provider list \<Rightarrow> sched_op \<Rightarrow> scheduler \<times> provider list" where
  "apply_op (s, ps) Start = (start s, ps)"
| "apply_op (s, ps) Stop = (stop s, ps)"
| "apply_op (s, ps) (ScheduleNotification e n sch opts) =
     (snd (scheduleNotification e s n sch opts), ps)"
| "apply_op (s, ps) (RemoveJob k) = (snd (removeJob s k), ps)"
| "apply_op (s, ps) (Fire k) = fire k s ps"

definition run_ops :: "scheduler \<times> provider list \<Rightarrow> sched_op list \<Rightarrow> scheduler \<times> provider list" where
  "run_ops st ops = foldl apply_op st ops"

section \<open>Notions used in the statements\<close>

text \<open>
  A provider is eligible for a notification when the failover loop would try it; it
  delivers when, tried in its present state, its \<open>sendWithRetry\<close> returns.
\<close>

definition eligible :: "notification \<Rightarrow> provider \<Rightarrow> bool" where
  "eligible n p = (isEnabled p \<and> canHandle p n)"

definition delivers :: "notification \<Rightarrow> provider \<Rightarrow> bool" where
  "delivers n p =
     (eligible n p \<and>
      (case fst (sendWithRetry p n (retryAttempts p)) of Inl e \<Rightarrow> False | Inr r \<Rightarrow> True))"

definition failed_entry :: "error_entry \<Rightarrow> bool" where
  "failed_entry e = (\<not> skipped e)"

text \<open>The outcome of the \<open>k\<close>-th invocation of \<open>send\<close> counted from now.\<close>

definition upcoming :: "provider \<Rightarrow> notification \<Rightarrow> nat \<Rightarrow> error + receipt" where
  "upcoming p n k = send_outcome p (send_calls p + k) n"

text \<open>
  Whether \<open>sendNotification\<close> returns for a notification, and, item by item, whether
  it returns for each notification of a list when every item finds the providers as
  the items before it left them.
\<close>

definition dispatch_ok :: "provider list \<Rightarrow> notification \<Rightarrow> options \<Rightarrow> bool" where
  "dispatch_ok ps n opts =
     (case fst (sendNotification ps n opts) of Inl e \<Rightarrow> False | Inr r \<Rightarrow> True)"

fun outcomes :: "provider list \<Rightarrow> notification list \<Rightarrow> options \<Rightarrow> bool list" where
  "outcomes ps [] opts = []"
| "outcomes ps (n # ns) opts =
     dispatch_ok ps n opts # outcomes (snd (sendNotification ps n opts)) ns opts"

text \<open>The providers after the notifications of a list were dispatched one after the other.\<close>

fun providers_after :: "provider list \<Rightarrow> notification list \<Rightarrow> options \<Rightarrow> provider list" where
  "providers_after ps [] opts = ps"
| "providers_after ps (n # ns) opts = providers_after (snd (sendNotification ps n opts)) ns opts"

text \<open>
  A provider accepts a notification when its \<open>validateNotification\<close> returns, and the
  notification is usable by it when it is accepted and \<open>canHandle\<close> holds.
\<close>

definition accepts :: "notification \<Rightarrow> provider \<Rightarrow> bool" where
  "accepts n p = (case validateNotification p n of Inl e \<Rightarrow> False | Inr ok \<Rightarrow> True)"

definition usable :: "notification \<Rightarrow> provider \<Rightarrow> bool" where
  "usable n p = (accepts n p \<and> canHandle p n)"

text \<open>
  The registry as \<open>scheduleNotification\<close> builds it: a job is stored under its own
  identifier, and the callback of its task closes over that identifier and over the
  frequency recorded in the job.
\<close>

definition job_ok :: "string \<times> job \<Rightarrow> bool" where
  "job_ok kj =
     (case kj of
        (k, j) \<Rightarrow>
          id j = k \<and> task_jobId (job_task j) = k \<and>
          task_frequency (job_task j) = sched_frequency (job_schedule j))"

definition registry_ok :: "scheduler \<Rightarrow> bool" where
  "registry_ok s = list_all job_ok (jobs s)"

definition active_ids :: "(task \<Rightarrow> string) option \<Rightarrow> scheduler \<Rightarrow> string list" where
  "active_ids getStatus s = map view_id (getActiveJobs getStatus s)"

section \<open>Example objects\<close>

text \<open>
  The three constructors, given the \<open>enabled\<close> argument and the behaviour of the
  transport.  \<open>FirebaseProvider\<close> also needs a complete configuration to stay enabled
  and become initialized.
\<close>

definition FirebaseProvider ::
  "bool \<Rightarrow> bool \<Rightarrow> (nat \<Rightarrow> notification \<Rightarrow> error + receipt) \<Rightarrow> provider" where
  "FirebaseProvider en complete outcome =
     \<lparr>variant = Firebase, name = ''Firebase'', enabled = (en \<and> complete),
      initialized = (en \<and> complete), retryAttempts = 3, retryDelay = 1000,
      send_outcome = outcome, send_calls = 0, delays = []\<rparr>"

definition OneSignalProvider :: "bool \<Rightarrow> (nat \<Rightarrow> notification \<Rightarrow> error + receipt) \<Rightarrow> provider" where
  "OneSignalProvider en outcome =
     \<lparr>variant = OneSignal, name = ''OneSignal'', enabled = en, initialized = False,
      retryAttempts = 3, retryDelay = 1000, send_outcome = outcome, send_calls = 0,
      delays = []\<rparr>"

definition PusherProvider :: "bool \<Rightarrow> (nat \<Rightarrow> notification \<Rightarrow> error + receipt) \<Rightarrow> provider" where
  "PusherProvider en outcome =
     \<lparr>variant = Pusher, name = ''Pusher'', enabled = en, initialized = False,
      retryAttempts = 3, retryDelay = 1000, send_outcome = outcome, send_calls = 0,
      delays = []\<rparr>"

definition delivered :: "nat \<Rightarrow> notification \<Rightarrow> error + receipt" where
  "delivered k n = Inr ''delivered''"

definition unreachable :: "nat \<Rightarrow> notification \<Rightarrow> error + receipt" where
  "unreachable k n = Inl (Error ''OneSignal send failed: timeout'')"

definition fails_twice :: "nat \<Rightarrow> notification \<Rightarrow> error + receipt" where
  "fails_twice k n = (if k < 2 then Inl (Error ''Pusher send failed: timeout'') else Inr ''delivered'')"

text \<open>What \<open>PusherProvider.send\<close> does while \<open>enabled\<close> is false.\<close>

definition not_available :: "nat \<Rightarrow> notification \<Rightarrow> error + receipt" where
  "not_available k n = Inl (Error ''Pusher provider is not available'')"

definition hello :: notification where
  "hello = \<lparr>title = Some ''Hi'', body = Some ''Hello there'', token = None, tokens = None,
            topic = None\<rparr>"

definition blank :: notification where
  "blank = \<lparr>title = None, body = None, token = None, tokens = None, topic = None\<rparr>"

definition title_only :: notification where
  "title_only = \<lparr>title = Some ''Hi'', body = None, token = None, tokens = None, topic = None\<rparr>"

definition no_options :: options where
  "no_options = \<lparr>provider = None, enableFailover = None, timeout = None\<rparr>"

definition via_pusher :: options where
  "via_pusher = \<lparr>provider = Some ''pusher'', enableFailover = None, timeout = None\<rparr>"

text \<open>
  Four providers in priority order: Firebase cannot handle \<open>hello\<close> (no token, tokens
  or topic), OneSignal fails every send, Pusher fails twice and then delivers, and a
  last provider would deliver at once.
\<close>

definition team :: "provider list" where
  "team = [FirebaseProvider True True delivered, OneSignalProvider True unreachable,
           PusherProvider True fails_twice, OneSignalProvider True delivered]"

definition losing_team :: "provider list" where
  "losing_team = [FirebaseProvider True True delivered, OneSignalProvider True unreachable,
                  PusherProvider False delivered]"

text \<open>
  The surroundings of a call made on 2 November 2026 at 10:00 UTC, for which 09:00 UTC
  is on the next day, with a cron library that knows the zone \<open>UTC\<close> only: one that
  rejects an unknown zone in \<open>cron.schedule\<close>, and one that rejects it in
  \<open>task.start()\<close>.
\<close>

definition unknown_zone :: "string \<Rightarrow> error option" where
  "unknown_zone z =
     (if z = ''UTC'' then None else Some (RangeError (''Invalid time zone specified: '' @ z)))"

definition env0 :: env where
  "env0 = \<lparr>now_ms = 1793613600000, random_part = ''k3x9q2m1z'',
           target = (\<lambda>tz h m. (3, 10, ''2026-11-03 09:00:00 UTC'')),
           created_iso = ''2026-11-02T10:00:00.000Z'',
           cron_schedule = (\<lambda>c z. unknown_zone z), task_start = (\<lambda>c z. None)\<rparr>"

definition env_late :: env where
  "env_late = env0\<lparr>cron_schedule := (\<lambda>c z. None), task_start := (\<lambda>c z. unknown_zone z)\<rparr>"

definition on_mars :: schedule where
  "on_mars = \<lparr>time = Some ''9:00'', timezone = Some ''Mars/Phobos'', frequency = Some ''once''\<rparr>"

definition started :: scheduler where
  "started = start SchedulerService_new"

definition at_time :: "string \<Rightarrow> string \<Rightarrow> schedule" where
  "at_time t f = \<lparr>time = Some t, timezone = Some ''UTC'', frequency = Some f\<rparr>"

text \<open>A transport that rejects one particular notification, and a batch around it.\<close>

definition bad_news :: notification where
  "bad_news = \<lparr>title = Some ''Bad'', body = Some ''Rejected upstream'', token = None,
               tokens = None, topic = None\<rparr>"

definition picky :: "nat \<Rightarrow> notification \<Rightarrow> error + receipt" where
  "picky k n =
     (if title n = Some ''Bad'' then Inl (Error ''Pusher send failed: rejected'')
      else Inr ''delivered'')"

definition batch :: "notification list" where
  "batch = [hello, bad_news, hello]"

text \<open>A started scheduler holding one job, of either frequency.\<close>

definition once_state :: scheduler where
  "once_state = snd (scheduleNotification env0 started hello (at_time ''09:00'' ''once'') no_options)"

definition daily_state :: scheduler where
  "daily_state =
     snd (scheduleNotification env0 started hello (at_time ''09:00'' ''daily'') no_options)"

definition idle_ops :: "sched_op list" where
  "idle_ops =
     [ScheduleNotification env0 hello (at_time ''09:00'' ''once'') no_options,
      Fire (new_jobId env0), RemoveJob (new_jobId env0), Stop]"

section \<open>Retry with linear backoff\<close>

declare sendWithRetry_from.simps [simp del]

lemma retry_success_from:
  "m < attempts - i \<Longrightarrow>
   (\<forall>k<m. isl (send_outcome p (send_calls p + k) n)) \<Longrightarrow>
   send_outcome p (send_calls p + m) n = Inr r \<Longrightarrow>
   sendWithRetry_from i attempts p n =
     (Inr (Some r),
      p\<lparr>send_calls := send_calls p + m + 1,
        delays := delays p @ map (\<lambda>k. retryDelay p * k) [i + 1..<i + m + 1]\<rparr>)"
proof (induction m arbitrary: i p)
  case 0
  then show ?case
    by (subst sendWithRetry_from.simps) (simp add: send_def)
next
  case (Suc m)
  from Suc.prems(2) have "isl (send_outcome p (send_calls p) n)" by force
  then obtain e where e: "send_outcome p (send_calls p) n = Inl e"
    by (cases "send_outcome p (send_calls p) n") auto
  let ?q = "delay (retryDelay p * (i + 1)) (p\<lparr>send_calls := Suc (send_calls p)\<rparr>)"
  have i: "i < attempts" "i \<noteq> attempts - 1" using Suc.prems(1) by arith+
  have step: "sendWithRetry_from i attempts p n = sendWithRetry_from (i + 1) attempts ?q n"
    using i e by (subst sendWithRetry_from.simps) (simp add: send_def)
  have a: "m < attempts - (i + 1)" using Suc.prems(1) by simp
  have b: "\<forall>k<m. isl (send_outcome ?q (send_calls ?q + k) n)"
    using Suc.prems(2) by (auto simp: delay_def)
  have c: "send_outcome ?q (send_calls ?q + m) n = Inr r"
    using Suc.prems(3) by (simp add: delay_def)
  have up: "[i + 1..<i + Suc m + 1] = (i + 1) # [i + 1 + 1..<i + 1 + m + 1]"
    by (simp add: upt_conv_Cons)
  show ?case
    unfolding step Suc.IH [OF a b c] up
    by (simp add: delay_def)
qed

lemma retry_failure_from:
  "d = attempts - i \<Longrightarrow> 0 < d \<Longrightarrow>
   (\<forall>k<d. isl (send_outcome p (send_calls p + k) n)) \<Longrightarrow>
   \<exists>e. send_outcome p (send_calls p + d - 1) n = Inl e \<and>
       sendWithRetry_from i attempts p n =
         (Inl e,
          p\<lparr>send_calls := send_calls p + d,
            delays := delays p @ map (\<lambda>k. retryDelay p * k) [i + 1..<attempts]\<rparr>)"
proof (induction d arbitrary: i p)
  case 0
  then show ?case by simp
next
  case (Suc d)
  from Suc.prems(3) have "isl (send_outcome p (send_calls p) n)" by force
  then obtain e where e: "send_outcome p (send_calls p) n = Inl e"
    by (cases "send_outcome p (send_calls p) n") auto
  have i: "i < attempts" using Suc.prems(1) by arith
  show ?case
  proof (cases "d = 0")
    case True
    then have last: "i = attempts - 1" "i + 1 = attempts" using Suc.prems(1) by arith+
    show ?thesis
      using i last(1) e True
      by (subst sendWithRetry_from.simps) (simp add: send_def last(2))
  next
    case False
    then have ne: "i \<noteq> attempts - 1" using Suc.prems(1) by arith
    let ?q = "delay (retryDelay p * (i + 1)) (p\<lparr>send_calls := Suc (send_calls p)\<rparr>)"
    have step: "sendWithRetry_from i attempts p n = sendWithRetry_from (i + 1) attempts ?q n"
      using i ne e by (subst sendWithRetry_from.simps) (simp add: send_def)
    have a: "d = attempts - (i + 1)" using Suc.prems(1) by simp
    have b: "0 < d" using False by simp
    have c: "\<forall>k<d. isl (send_outcome ?q (send_calls ?q + k) n)"
      using Suc.prems(3) by (auto simp: delay_def)
    have up: "[i + 1..<attempts] = (i + 1) # [i + 1 + 1..<attempts]"
      using False Suc.prems(1) by (simp add: upt_conv_Cons)
    from Suc.IH [OF a b c] obtain e' where
      e': "send_outcome ?q (send_calls ?q + d - 1) n = Inl e'"
      and r: "sendWithRetry_from (i + 1) attempts ?q n =
         (Inl e', ?q\<lparr>send_calls := send_calls ?q + d,
            delays := delays ?q @ map (\<lambda>k. retryDelay ?q * k) [i + 1 + 1..<attempts]\<rparr>)"
      by blast
    show ?thesis
      unfolding step r up
      using b e' by (simp add: delay_def)
  qed
qed

lemma upt_1_3: "[1..<3] = [1, 2::nat]" "[Suc 0..<3] = [Suc 0, 2]"
  by (simp_all add: upt_rec)

text \<open>
  Claim C4, as the code has it.  When the next two invocations of \<open>send\<close> fail and the
  third succeeds, \<open>sendWithRetry\<close> with \<open>attempts = 3\<close> returns that success after
  exactly three invocations, having waited once and twice the base delay between
  them; no wait of three times the base delay occurs, since nothing is awaited after
  the last attempt.  In general, when the first success among the next \<open>attempts\<close>
  invocations is the one numbered \<open>m\<close> (from zero), it is returned after \<open>m + 1\<close>
  invocations and waits of \<open>1, ..., m\<close> times the base delay, the remaining attempts
  being left unused; and when all \<open>attempts \<ge> 1\<close> invocations fail, the error of the
  last one is re-thrown after waits of \<open>1, ..., attempts - 1\<close> times the base delay.
\<close>

theorem sendWithRetry_backoff:
  "(isl (upcoming p n 0) \<and> isl (upcoming p n 1) \<and> upcoming p n 2 = Inr r \<longrightarrow>
      sendWithRetry p n 3 =
        (Inr (Some r),
         p\<lparr>send_calls := send_calls p + 3,
           delays := delays p @ [retryDelay p * 1, retryDelay p * 2]\<rparr>)) \<and>
   (m < attempts \<and> (\<forall>k<m. isl (upcoming p n k)) \<and> upcoming p n m = Inr r' \<longrightarrow>
      sendWithRetry p n attempts =
        (Inr (Some r'),
         p\<lparr>send_calls := send_calls p + m + 1,
           delays := delays p @ map (\<lambda>k. retryDelay p * k) [1..<m + 1]\<rparr>)) \<and>
   (0 < attempts \<and> (\<forall>k<attempts. isl (upcoming p n k)) \<longrightarrow>
      (\<exists>e. upcoming p n (attempts - 1) = Inl e \<and>
           sendWithRetry p n attempts =
             (Inl e,
              p\<lparr>send_calls := send_calls p + attempts,
                delays := delays p @ map (\<lambda>k. retryDelay p * k) [1..<attempts]\<rparr>)))"
proof (intro conjI impI)
  assume h: "isl (upcoming p n 0) \<and> isl (upcoming p n 1) \<and> upcoming p n 2 = Inr r"
  then have "\<forall>k<2. isl (send_outcome p (send_calls p + k) n)"
    by (auto simp: upcoming_def less_Suc_eq numeral_2_eq_2)
  from retry_success_from [of 2 3 0 p n r, OF _ this] h
  show "sendWithRetry p n 3 =
        (Inr (Some r),
         p\<lparr>send_calls := send_calls p + 3,
           delays := delays p @ [retryDelay p * 1, retryDelay p * 2]\<rparr>)"
    by (simp add: sendWithRetry_def upcoming_def upt_1_3)
next
  assume "m < attempts \<and> (\<forall>k<m. isl (upcoming p n k)) \<and> upcoming p n m = Inr r'"
  then show "sendWithRetry p n attempts =
        (Inr (Some r'),
         p\<lparr>send_calls := send_calls p + m + 1,
           delays := delays p @ map (\<lambda>k. retryDelay p * k) [1..<m + 1]\<rparr>)"
    using retry_success_from [of m attempts 0 p n r']
    by (simp add: sendWithRetry_def upcoming_def)
next
  assume "0 < attempts \<and> (\<forall>k<attempts. isl (upcoming p n k))"
  then show "\<exists>e. upcoming p n (attempts - 1) = Inl e \<and>
           sendWithRetry p n attempts =
             (Inl e,
              p\<lparr>send_calls := send_calls p + attempts,
                delays := delays p @ map (\<lambda>k. retryDelay p * k) [1..<attempts]\<rparr>)"
    using retry_failure_from [of attempts attempts 0 p n]
    by (simp add: sendWithRetry_def upcoming_def)
qed

lemma flaky_run:
  "sendWithRetry (PusherProvider True fails_twice) hello 3 =
     (Inr (Some ''delivered''),
      (PusherProvider True fails_twice)\<lparr>send_calls := 3, delays := [1000, 2000]\<rparr>)"
  by (simp add: sendWithRetry_def sendWithRetry_from.simps send_def delay_def PusherProvider_def
        fails_twice_def)

text \<open>
  The claim as written asks for waits of once, twice and three times the base delay.
  On a provider that fails twice and then delivers, the waits are 1000 and 2000 only.
\<close>

theorem sendWithRetry_three_waits_counterexample:
  "fst (sendWithRetry (PusherProvider True fails_twice) hello 3) = Inr (Some ''delivered'') \<and>
   send_calls (snd (sendWithRetry (PusherProvider True fails_twice) hello 3)) = 3 \<and>
   delays (snd (sendWithRetry (PusherProvider True fails_twice) hello 3)) = [1000, 2000] \<and>
   delays (snd (sendWithRetry (PusherProvider True fails_twice) hello 3)) \<noteq> [1000, 2000, 3000]"
  by (simp add: flaky_run)

theorem sendWithRetry_backoff_witness:
  "isl (upcoming (PusherProvider True fails_twice) hello 0) \<and>
   isl (upcoming (PusherProvider True fails_twice) hello 1) \<and>
   upcoming (PusherProvider True fails_twice) hello 2 = Inr ''delivered'' \<and>
   sendWithRetry (PusherProvider True fails_twice) hello 3 =
     (Inr (Some ''delivered''),
      (PusherProvider True fails_twice)\<lparr>send_calls := 3, delays := [1000, 2000]\<rparr>) \<and>
   isl (upcoming (OneSignalProvider True unreachable) hello 0) \<and>
   isl (upcoming (OneSignalProvider True unreachable) hello 1) \<and>
   isl (upcoming (OneSignalProvider True unreachable) hello 2) \<and>
   sendWithRetry (OneSignalProvider True unreachable) hello 3 =
     (Inl (Error ''OneSignal send failed: timeout''),
      (OneSignalProvider True unreachable)\<lparr>send_calls := 3, delays := [1000, 2000]\<rparr>)"
proof -
  have a: "isl (upcoming (PusherProvider True fails_twice) hello 0) \<and>
           isl (upcoming (PusherProvider True fails_twice) hello 1) \<and>
           upcoming (PusherProvider True fails_twice) hello 2 = Inr ''delivered''"
    by (simp add: upcoming_def PusherProvider_def fails_twice_def)
  have b: "(0::nat) < 3 \<and> (\<forall>k<(3::nat). isl (upcoming (OneSignalProvider True unreachable) hello k))"
    by (simp add: upcoming_def OneSignalProvider_def unreachable_def)
  from sendWithRetry_backoff [of "PusherProvider True fails_twice" hello "''delivered''" 0 0 "''x''"]
       sendWithRetry_backoff [of "OneSignalProvider True unreachable" hello "''x''" 0 3 "''x''"]
       a b
  show ?thesis
    by (simp add: upcoming_def PusherProvider_def OneSignalProvider_def unreachable_def upt_1_3)
qed

section \<open>Failover\<close>

lemma sendWithRetry_from_keeps:
  "name (snd (sendWithRetry_from i a p n)) = name p \<and>
   variant (snd (sendWithRetry_from i a p n)) = variant p \<and>
   enabled (snd (sendWithRetry_from i a p n)) = enabled p \<and>
   initialized (snd (sendWithRetry_from i a p n)) = initialized p"
proof (induction i a p n rule: sendWithRetry_from.induct)
  case (1 i attempts p n)
  show ?case
  proof (cases "send_outcome p (send_calls p) n")
    case (Inr r)
    then show ?thesis
      by (subst (1 2 3 4) sendWithRetry_from.simps) (simp add: send_def)
  next
    case (Inl e)
    show ?thesis
    proof (cases "i < attempts \<and> i \<noteq> attempts - 1")
      case True
      have "send p n = (Inl e, p\<lparr>send_calls := Suc (send_calls p)\<rparr>)"
        using Inl by (simp add: send_def)
      from "1.IH" [OF _ this [symmetric] refl] True
      show ?thesis
        using Inl by (subst (1 2 3 4) sendWithRetry_from.simps) (simp add: send_def delay_def)
    next
      case False
      then show ?thesis
        using Inl by (subst (1 2 3 4) sendWithRetry_from.simps) (auto simp add: send_def)
    qed
  qed
qed

lemma getName_sendWithRetry [simp]: "getName (snd (sendWithRetry p n a)) = getName p"
  by (simp add: getName_def sendWithRetry_def sendWithRetry_from_keeps)

lemma delivers_result:
  "delivers n p \<Longrightarrow> \<exists>r q. sendWithRetry p n (retryAttempts p) = (Inr r, q) \<and> getName q = getName p"
  using getName_sendWithRetry [of p n "retryAttempts p"]
  by (cases "sendWithRetry p n (retryAttempts p)") (auto simp: delivers_def split: sum.splits)

lemma eligible_fails:
  "eligible n p \<Longrightarrow> \<not> delivers n p \<Longrightarrow>
   \<exists>e q. sendWithRetry p n (retryAttempts p) = (Inl e, q) \<and> getName q = getName p"
  using getName_sendWithRetry [of p n "retryAttempts p"]
  by (cases "sendWithRetry p n (retryAttempts p)") (auto simp: delivers_def split: sum.splits)

lemma not_eligible_cases:
  "\<not> eligible n p \<Longrightarrow> \<not> isEnabled p \<or> (isEnabled p \<and> \<not> canHandle p n)"
  by (auto simp: eligible_def)

lemma tryProviders_first_delivery:
  "k < length ps \<Longrightarrow> delivers n (ps ! k) \<Longrightarrow> (\<forall>j<k. \<not> delivers n (ps ! j)) \<Longrightarrow>
   \<exists>r errs' ps'.
     tryProviders n errs ps = (Some (getName (ps ! k), r), errs', ps') \<and>
     length ps' = length ps \<and>
     ps' ! k = snd (sendWithRetry (ps ! k) n (retryAttempts (ps ! k))) \<and>
     (\<forall>j. k < j \<and> j < length ps \<longrightarrow> ps' ! j = ps ! j)"
proof (induction ps arbitrary: k errs)
  case Nil
  then show ?case by simp
next
  case (Cons p ps)
  show ?case
  proof (cases k)
    case 0
    with Cons.prems(2) have d: "delivers n p" by simp
    from delivers_result [OF d] d 0 show ?thesis
      by (auto simp: delivers_def eligible_def)
  next
    case (Suc k')
    from Cons.prems Suc have k': "k' < length ps" "delivers n (ps ! k')"
      "\<forall>j<k'. \<not> delivers n (ps ! j)"
      by auto
    from Cons.prems(3) Suc have nd: "\<not> delivers n p" by auto
    note IH = Cons.IH [OF k']
    show ?thesis
    proof (cases "eligible n p")
      case False
      from not_eligible_cases [OF this] show ?thesis
      proof
        assume "\<not> isEnabled p"
        with Suc
          IH [of "errs @ [\<lparr>entry_provider = getName p, entry_error = ''Provider is disabled'',
                           skipped = True\<rparr>]"]
        show ?thesis
          by (auto simp: nth_Cons split: nat.splits)
      next
        assume "isEnabled p \<and> \<not> canHandle p n"
        with Suc
          IH [of "errs @ [\<lparr>entry_provider = getName p,
                           entry_error = ''Provider cannot handle this notification type'',
                           skipped = True\<rparr>]"]
        show ?thesis
          by (auto simp: nth_Cons split: nat.splits)
      qed
    next
      case True
      from eligible_fails [OF True nd] obtain e q where
        e: "sendWithRetry p n (retryAttempts p) = (Inl e, q)" by blast
      with True Suc
        IH [of "errs @ [\<lparr>entry_provider = getName q, entry_error = message e, skipped = False\<rparr>]"]
      show ?thesis
        by (auto simp: eligible_def nth_Cons split: nat.splits)
    qed
  qed
qed

lemma tryProviders_all_fail:
  "(\<forall>p\<in>set ps. \<not> delivers n p) \<Longrightarrow>
   \<exists>new ps'.
     tryProviders n errs ps = (None, errs @ new, ps') \<and>
     length new = length ps \<and>
     map entry_provider new = map getName ps \<and>
     map skipped new = map (\<lambda>p. \<not> eligible n p) ps \<and>
     length (filter failed_entry new) = length (filter (eligible n) ps)"
proof (induction ps arbitrary: errs)
  case Nil
  then show ?case by simp
next
  case (Cons p ps)
  then have rest: "\<forall>p\<in>set ps. \<not> delivers n p" and nd: "\<not> delivers n p" by auto
  note IH = Cons.IH [OF rest]
  show ?case
  proof (cases "eligible n p")
    case False
    from not_eligible_cases [OF this] show ?thesis
    proof
      assume "\<not> isEnabled p"
      with False
        IH [of "errs @ [\<lparr>entry_provider = getName p, entry_error = ''Provider is disabled'',
                         skipped = True\<rparr>]"]
      show ?thesis
        by (auto simp: failed_entry_def)
    next
      assume "isEnabled p \<and> \<not> canHandle p n"
      with False
        IH [of "errs @ [\<lparr>entry_provider = getName p,
                         entry_error = ''Provider cannot handle this notification type'',
                         skipped = True\<rparr>]"]
      show ?thesis
        by (auto simp: failed_entry_def)
    qed
  next
    case True
    from eligible_fails [OF True nd] obtain e q where
      e: "sendWithRetry p n (retryAttempts p) = (Inl e, q)" and q: "getName q = getName p"
      by blast
    with True
      IH [of "errs @ [\<lparr>entry_provider = getName q, entry_error = message e, skipped = False\<rparr>]"]
    show ?thesis
      by (auto simp: failed_entry_def eligible_def)
  qed
qed

lemma failover_path:
  "\<not> truthy (provider opts) \<Longrightarrow> providers \<noteq> [] \<Longrightarrow>
   sendNotification providers n opts = sendWithFailover providers n"
  by (auto simp: sendNotification_def truthy_def split: option.splits)

text \<open>
  Claim C1.  On the failover path (no provider named in the options), let the provider
  at position \<open>k\<close> be the first, in priority order, that is enabled, can handle the
  notification and whose \<open>sendWithRetry\<close> succeeds.  Then \<open>sendNotification\<close> returns
  a success whose \<open>usedProvider\<close> is the name of that provider, that provider is left
  as its \<open>sendWithRetry\<close> leaves it, and every provider after it is exactly as it was:
  in particular its \<open>send\<close> was not invoked.
\<close>

theorem failover_stops_at_first_success:
  assumes "\<not> truthy (provider opts)"
    and "k < length providers"
    and "delivers n (providers ! k)"
    and "\<forall>j<k. \<not> delivers n (providers ! j)"
  shows "\<exists>res providers'.
           sendNotification providers n opts = (Inr res, providers') \<and>
           success res \<and>
           usedProvider res = Some (getName (providers ! k)) \<and>
           successfulProviders res = 1 \<and>
           length providers' = length providers \<and>
           providers' ! k =
             snd (sendWithRetry (providers ! k) n (retryAttempts (providers ! k))) \<and>
           (\<forall>j. k < j \<and> j < length providers \<longrightarrow>
                providers' ! j = providers ! j \<and>
                send_calls (providers' ! j) = send_calls (providers ! j))"
proof -
  from assms(2) have ne: "providers \<noteq> []" by auto
  from tryProviders_first_delivery [OF assms(2-4), of "[]"] obtain r errs' ps' where
    t: "tryProviders n [] providers = (Some (getName (providers ! k), r), errs', ps')"
    and l: "length ps' = length providers"
    and u: "ps' ! k = snd (sendWithRetry (providers ! k) n (retryAttempts (providers ! k)))"
    and rest: "\<forall>j. k < j \<and> j < length providers \<longrightarrow> ps' ! j = providers ! j"
    by blast
  show ?thesis
    unfolding failover_path [OF assms(1) ne] sendWithFailover_def t
    using l u rest by simp
qed

lemma unreachable_run:
  "sendWithRetry (OneSignalProvider True unreachable) hello 3 =
     (Inl (Error ''OneSignal send failed: timeout''),
      (OneSignalProvider True unreachable)\<lparr>send_calls := 3, delays := [1000, 2000]\<rparr>)"
  by (simp add: sendWithRetry_def sendWithRetry_from.simps send_def delay_def
        OneSignalProvider_def unreachable_def)

lemma team_delivers:
  "\<not> delivers hello (team ! 0)" "\<not> delivers hello (team ! 1)" "delivers hello (team ! 2)"
  using flaky_run unreachable_run
  by (simp_all add: team_def delivers_def eligible_def isEnabled_def canHandle_def truthy_def
        hello_def FirebaseProvider_def OneSignalProvider_def PusherProvider_def)

theorem failover_stops_at_first_success_witness:
  "\<not> truthy (provider no_options) \<and> 2 < length team \<and> delivers hello (team ! 2) \<and>
   \<not> delivers hello (team ! 0) \<and> \<not> delivers hello (team ! 1) \<and>
   (\<exists>res providers'.
      sendNotification team hello no_options = (Inr res, providers') \<and>
      success res \<and> usedProvider res = Some ''Pusher'' \<and>
      send_calls (providers' ! 2) = 3 \<and>
      providers' ! 3 = team ! 3 \<and> send_calls (providers' ! 3) = 0)"
proof -
  have a: "\<not> truthy (provider no_options)" by (simp add: no_options_def truthy_def)
  have b: "2 < length team" by (simp add: team_def)
  have c: "\<forall>j<2. \<not> delivers hello (team ! j)"
    using team_delivers(1,2) by (auto simp: less_Suc_eq numeral_2_eq_2)
  have d: "team ! 2 = PusherProvider True fails_twice" "team ! 3 = OneSignalProvider True delivered"
    "length team = 4"
    by (simp_all add: team_def)
  from failover_stops_at_first_success [OF a b team_delivers(3) c] obtain res providers' where
    "sendNotification team hello no_options = (Inr res, providers')" "success res"
    "usedProvider res = Some (getName (team ! 2))"
    "providers' ! 2 = snd (sendWithRetry (team ! 2) hello (retryAttempts (team ! 2)))"
    "\<forall>j. 2 < j \<and> j < length team \<longrightarrow>
         providers' ! j = team ! j \<and> send_calls (providers' ! j) = send_calls (team ! j)"
    by blast
  then have
    "sendNotification team hello no_options = (Inr res, providers') \<and>
      success res \<and> usedProvider res = Some ''Pusher'' \<and>
      send_calls (providers' ! 2) = 3 \<and>
      providers' ! 3 = team ! 3 \<and> send_calls (providers' ! 3) = 0"
    using flaky_run
    by (simp add: d getName_def PusherProvider_def OneSignalProvider_def)
  with a b team_delivers show ?thesis by blast
qed

text \<open>
  Claim C3, as the code has it.  On the failover path with at least one provider
  configured, when no provider delivers (every eligible provider's \<open>sendWithRetry\<close>
  fails), \<open>sendNotification\<close> throws the error whose message is
  \<open>All providers failed:\<close> followed by the recorded entries.  There is one entry for
  every provider, in priority order, skipped or not; the entries of the providers that
  were not eligible are marked \<open>skipped\<close>, and the entries not marked \<open>skipped\<close> are as
  many as the eligible providers.
\<close>

theorem all_providers_failed:
  assumes "\<not> truthy (provider opts)"
    and "providers \<noteq> []"
    and "\<forall>p\<in>set providers. \<not> delivers n p"
  shows "\<exists>errs providers'.
           tryProviders n [] providers = (None, errs, providers') \<and>
           sendNotification providers n opts =
             (Inl (Error (''All providers failed: '' @
                          join ''; '' (map (\<lambda>e. entry_provider e @ '': '' @ entry_error e) errs))),
              providers') \<and>
           length errs = length providers \<and>
           map entry_provider errs = map getName providers \<and>
           map skipped errs = map (\<lambda>p. \<not> eligible n p) providers \<and>
           length (filter failed_entry errs) = length (filter (eligible n) providers)"
proof -
  from tryProviders_all_fail [OF assms(3), of "[]"] obtain errs ps' where
    t: "tryProviders n [] providers = (None, errs, ps')"
    and facts: "length errs = length providers"
      "map entry_provider errs = map getName providers"
      "map skipped errs = map (\<lambda>p. \<not> eligible n p) providers"
      "length (filter failed_entry errs) = length (filter (eligible n) providers)"
    by auto
  show ?thesis
    unfolding failover_path [OF assms(1,2)] sendWithFailover_def t
    using facts by simp
qed

lemma losing_team_run:
  "tryProviders hello [] losing_team =
     (None,
      [\<lparr>entry_provider = ''Firebase'',
        entry_error = ''Provider cannot handle this notification type'', skipped = True\<rparr>,
       \<lparr>entry_provider = ''OneSignal'', entry_error = ''OneSignal send failed: timeout'',
        skipped = False\<rparr>,
       \<lparr>entry_provider = ''Pusher'', entry_error = ''Provider is disabled'', skipped = True\<rparr>],
      [FirebaseProvider True True delivered,
       (OneSignalProvider True unreachable)\<lparr>send_calls := 3, delays := [1000, 2000]\<rparr>,
       PusherProvider False delivered])"
proof -
  have f: "isEnabled (FirebaseProvider True True delivered)"
    "\<not> canHandle (FirebaseProvider True True delivered) hello"
    by (simp_all add: FirebaseProvider_def isEnabled_def canHandle_def hello_def truthy_def)
  have o: "isEnabled (OneSignalProvider True unreachable)"
    "canHandle (OneSignalProvider True unreachable) hello"
    "retryAttempts (OneSignalProvider True unreachable) = 3"
    by (simp_all add: OneSignalProvider_def isEnabled_def canHandle_def)
  have p: "\<not> isEnabled (PusherProvider False delivered)"
    by (simp add: PusherProvider_def isEnabled_def)
  have names: "getName (FirebaseProvider True True delivered) = ''Firebase''"
    "getName ((OneSignalProvider True unreachable)\<lparr>send_calls := 3, delays := [1000, 2000]\<rparr>) =
       ''OneSignal''"
    "getName (PusherProvider False delivered) = ''Pusher''"
    by (simp_all add: getName_def FirebaseProvider_def OneSignalProvider_def PusherProvider_def)
  show ?thesis
    by (simp add: losing_team_def f o p names unreachable_run)
qed

lemma losing_team_eligible:
  "filter (eligible hello) losing_team = [OneSignalProvider True unreachable]"
  by (simp add: losing_team_def eligible_def isEnabled_def canHandle_def hello_def truthy_def
        FirebaseProvider_def OneSignalProvider_def PusherProvider_def)

text \<open>
  The claim as written makes the list of recorded attempts as long as the number of
  eligible providers.  With Firebase unable to handle the notification, OneSignal
  failing and Pusher disabled, three entries are recorded and reported though only one
  provider is eligible.
\<close>

theorem recorded_attempts_counterexample:
  "fst (sendNotification losing_team hello no_options) =
     Inl (Error (''All providers failed: '' @
                 ''Firebase: Provider cannot handle this notification type; '' @
                 ''OneSignal: OneSignal send failed: timeout; '' @
                 ''Pusher: Provider is disabled'')) \<and>
   length (fst (snd (tryProviders hello [] losing_team))) = 3 \<and>
   length (filter (eligible hello) losing_team) = 1 \<and>
   length (fst (snd (tryProviders hello [] losing_team))) \<noteq>
     length (filter (eligible hello) losing_team)"
  by (simp add: sendNotification_def sendWithFailover_def losing_team_run losing_team_eligible
        no_options_def)
    (simp add: losing_team_def)

theorem all_providers_failed_witness:
  "\<not> truthy (provider no_options) \<and> losing_team \<noteq> [] \<and>
   \<not> delivers hello (losing_team ! 0) \<and> \<not> delivers hello (losing_team ! 1) \<and>
   \<not> delivers hello (losing_team ! 2) \<and>
   (\<exists>errs providers'.
      tryProviders hello [] losing_team = (None, errs, providers') \<and>
      length errs = 3 \<and>
      map entry_provider errs = [''Firebase'', ''OneSignal'', ''Pusher''] \<and>
      map skipped errs = [True, False, True] \<and>
      length (filter failed_entry errs) = 1)"
proof -
  have a: "\<not> truthy (provider no_options)" by (simp add: no_options_def truthy_def)
  have b: "losing_team \<noteq> []" by (simp add: losing_team_def)
  have c: "\<not> delivers hello (losing_team ! 0)" "\<not> delivers hello (losing_team ! 1)"
    "\<not> delivers hello (losing_team ! 2)"
    using unreachable_run
    by (simp_all add: losing_team_def delivers_def eligible_def isEnabled_def canHandle_def
          truthy_def hello_def FirebaseProvider_def OneSignalProvider_def PusherProvider_def)
  have d: "\<forall>p\<in>set losing_team. \<not> delivers hello p"
    using c by (simp add: losing_team_def)
  from all_providers_failed [OF a b d] obtain errs providers' where
    "tryProviders hello [] losing_team = (None, errs, providers')"
    "length errs = length losing_team"
    "map entry_provider errs = map getName losing_team"
    "map skipped errs = map (\<lambda>p. \<not> eligible hello p) losing_team"
    "length (filter failed_entry errs) = length (filter (eligible hello) losing_team)"
    by blast
  then have
    "tryProviders hello [] losing_team = (None, errs, providers') \<and>
      length errs = 3 \<and>
      map entry_provider errs = [''Firebase'', ''OneSignal'', ''Pusher''] \<and>
      map skipped errs = [True, False, True] \<and>
      length (filter failed_entry errs) = 1"
    by (simp add: losing_team_eligible)
       (simp add: losing_team_def getName_def eligible_def isEnabled_def canHandle_def
          truthy_def hello_def FirebaseProvider_def OneSignalProvider_def PusherProvider_def)
  then have e: "\<exists>errs providers'.
      tryProviders hello [] losing_team = (None, errs, providers') \<and>
      length errs = 3 \<and>
      map entry_provider errs = [''Firebase'', ''OneSignal'', ''Pusher''] \<and>
      map skipped errs = [True, False, True] \<and>
      length (filter failed_entry errs) = 1"
    by (intro exI)
  from a b c e show ?thesis by simp
qed

section \<open>A provider named in the options\<close>

lemma findIndex_None: "(\<forall>x\<in>set xs. \<not> P x) \<Longrightarrow> findIndex P xs = None"
  by (induction xs) auto

lemma named_absent_provider:
  assumes "providers \<noteq> []" and "requested \<noteq> []" and "provider opts = Some requested"
    and "\<forall>p\<in>set providers. toLowerCase (getName p) \<noteq> toLowerCase requested"
  shows "sendNotification providers n opts =
           (Inl (Error (''Provider '' @ requested @ '' not found or not enabled'')), providers)"
  using assms findIndex_None [of providers "\<lambda>p. toLowerCase (getName p) = toLowerCase requested"]
  by (simp add: sendNotification_def sendViaRequested_def)

lemma not_available_run:
  "sendWithRetry (PusherProvider False not_available) hello 3 =
     (Inl (Error ''Pusher provider is not available''),
      (PusherProvider False not_available)\<lparr>send_calls := 3, delays := [1000, 2000]\<rparr>)"
  by (simp add: sendWithRetry_def sendWithRetry_from.simps send_def delay_def
        PusherProvider_def not_available_def)

lemma lower_names: "toLowerCase ''Pusher'' = ''pusher''" "toLowerCase ''pusher'' = ''pusher''"
  by (simp_all add: toLowerCase_def toLowerCase_char_def)

text \<open>
  Claim C2 at a provider that was disabled at run time.  \<open>updateProviderStatus\<close>
  clears the flag of the Pusher provider and leaves it in the list.  A dispatch that
  names \<open>pusher\<close> then finds it, runs \<open>sendWithRetry\<close> on it (three invocations of
  \<open>send\<close> and two waits) and throws \<open>Failed to send via pusher: ...\<close>, where the claim
  has it fail with \<open>Provider pusher not found or not enabled\<close> before any send.
\<close>

theorem named_disabled_provider_is_tried:
  "updateProviderStatus [PusherProvider True not_available] ''pusher'' False =
     (True, [PusherProvider False not_available]) \<and>
   \<not> isEnabled (PusherProvider False not_available) \<and>
   sendNotification [PusherProvider False not_available] hello via_pusher =
     (Inl (Error ''Failed to send via pusher: Pusher provider is not available''),
      [(PusherProvider False not_available)\<lparr>send_calls := 3, delays := [1000, 2000]\<rparr>]) \<and>
   fst (sendNotification [PusherProvider False not_available] hello via_pusher) \<noteq>
     Inl (Error ''Provider pusher not found or not enabled'')"
proof -
  have n: "getName (PusherProvider b f) = ''Pusher''" "retryAttempts (PusherProvider b f) = 3"
    for b f
    by (simp_all add: getName_def PusherProvider_def)
  have u: "updateProviderStatus [PusherProvider True not_available] ''pusher'' False =
     (True, [PusherProvider False not_available])"
    by (simp add: updateProviderStatus_def n lower_names) (simp add: PusherProvider_def)
  have e: "\<not> isEnabled (PusherProvider False not_available)"
    by (simp add: isEnabled_def PusherProvider_def)
  have s: "sendNotification [PusherProvider False not_available] hello via_pusher =
     (Inl (Error ''Failed to send via pusher: Pusher provider is not available''),
      [(PusherProvider False not_available)\<lparr>send_calls := 3, delays := [1000, 2000]\<rparr>])"
    by (simp add: sendNotification_def sendViaRequested_def via_pusher_def n lower_names
          not_available_run)
  show ?thesis
    unfolding u s using e by simp
qed

section \<open>Compatibility check\<close>

lemma validate_from_valid:
  "valid (validate_from n v ps) = (valid v \<or> (\<exists>p\<in>set ps. isEnabled p \<and> usable n p))"
  by (induction ps arbitrary: v)
     (auto simp: usable_def accepts_def split: sum.splits)

lemma validate_from_reports:
  "map report_name (validation_providers (validate_from n v ps)) =
     map report_name (validation_providers v) @ map getName (filter isEnabled ps) \<and>
   map report_valid (validation_providers (validate_from n v ps)) =
     map report_valid (validation_providers v) @ map (accepts n) (filter isEnabled ps) \<and>
   map report_canHandle (validation_providers (validate_from n v ps)) =
     map report_canHandle (validation_providers v) @ map (usable n) (filter isEnabled ps)"
  by (induction ps arbitrary: v)
     (auto simp: usable_def accepts_def split: sum.splits)

text \<open>
  Claim C9, as the code has it.  \<open>validateNotificationForProviders\<close> only reads the
  providers (it returns a report and no provider is changed, so nothing is sent).  It
  reports on the enabled providers, in priority order, and has no entry for a disabled
  one: for each, whether \<open>validateNotification\<close> accepts the notification, and whether
  the notification is accepted and can be handled.  The overall \<open>valid\<close> flag is true
  exactly when some enabled provider accepts the notification and can handle it.
\<close>

theorem compatibility_report:
  "map report_name (validation_providers (validateNotificationForProviders ps n)) =
     map getName (filter isEnabled ps) \<and>
   map report_valid (validation_providers (validateNotificationForProviders ps n)) =
     map (accepts n) (filter isEnabled ps) \<and>
   map report_canHandle (validation_providers (validateNotificationForProviders ps n)) =
     map (usable n) (filter isEnabled ps) \<and>
   valid (validateNotificationForProviders ps n) =
     (\<exists>p\<in>set ps. isEnabled p \<and> accepts n p \<and> canHandle p n)"
  using validate_from_reports [of n "\<lparr>valid = False, validation_providers = [],
      validation_errors = []\<rparr>" ps]
  by (simp add: validateNotificationForProviders_def validate_from_valid usable_def)

text \<open>
  The claim as written makes \<open>valid\<close> true as soon as an enabled provider can handle
  the notification, and has a report for every provider.  A notification with neither
  title nor body is rejected by \<open>validateNotification\<close>, so \<open>valid\<close> stays false though
  the enabled Pusher provider can handle it; and a disabled provider gets no entry.
\<close>

theorem compatibility_counterexample:
  "isEnabled (PusherProvider True delivered) \<and>
   canHandle (PusherProvider True delivered) blank \<and>
   \<not> valid (validateNotificationForProviders [PusherProvider True delivered] blank) \<and>
   validation_providers (validateNotificationForProviders [PusherProvider False delivered] hello) = []"
  by (simp add: validateNotificationForProviders_def isEnabled_def canHandle_def
        validateNotification_def PusherProvider_def blank_def truthy_def getName_def)

theorem compatibility_report_witness:
  "map report_name (validation_providers (validateNotificationForProviders losing_team hello)) =
     [''Firebase'', ''OneSignal''] \<and>
   map report_valid (validation_providers (validateNotificationForProviders losing_team hello)) =
     [True, True] \<and>
   map report_canHandle (validation_providers (validateNotificationForProviders losing_team hello)) =
     [False, True] \<and>
   valid (validateNotificationForProviders losing_team hello)"
  using compatibility_report [of losing_team hello]
  by (simp add: losing_team_def isEnabled_def canHandle_def accepts_def usable_def
        validateNotification_def FirebaseProvider_def OneSignalProvider_def PusherProvider_def
        hello_def truthy_def getName_def)

section \<open>Bulk dispatch\<close>

lemma length_outcomes [simp]: "length (outcomes ps ns opts) = length ns"
  by (induction ns arbitrary: ps) auto

lemma sendBulk_from_items:
  "(\<forall>n\<in>set ns. body n \<noteq> None) \<Longrightarrow>
   \<exists>new.
     sendBulk_from i ns opts res ok bad ps =
       (Inr (res @ new,
             ok + length (filter (\<lambda>b. b) (outcomes ps ns opts)),
             bad + length (filter Not (outcomes ps ns opts))),
        providers_after ps ns opts) \<and>
     map index new = [i..<i + length ns] \<and>
     map item_success new = outcomes ps ns opts"
proof (induction ns arbitrary: i res ok bad ps)
  case Nil
  then show ?case by simp
next
  case (Cons n ns)
  then obtain b where b: "body n = Some b" by auto
  from Cons.prems have rest: "\<forall>n\<in>set ns. body n \<noteq> None" by simp
  obtain sent ps1 where s: "sendNotification ps n opts = (sent, ps1)"
    by (cases "sendNotification ps n opts")
  have up: "[i..<i + length (n # ns)] = i # [i + 1..<i + 1 + length ns]"
    by (subst upt_conv_Cons) simp_all
  show ?case
  proof (cases sent)
    case (Inl e)
    from Cons.IH [OF rest, of "i + 1"
        "res @ [\<lparr>index = i,
                 item_notification = \<lparr>summary_title = title n,
                    summary_body = substring0 50 b @ (if length b > 50 then ''...'' else [])\<rparr>,
                 item_result = None, item_error = Some (message e), item_success = False\<rparr>]"
        ok "bad + 1" ps1]
    show ?thesis
      unfolding up using s Inl b
      by (auto simp: summary_def dispatch_ok_def)
  next
    case (Inr r)
    from Cons.IH [OF rest, of "i + 1"
        "res @ [\<lparr>index = i,
                 item_notification = \<lparr>summary_title = title n,
                    summary_body = substring0 50 b @ (if length b > 50 then ''...'' else [])\<rparr>,
                 item_result = Some r, item_error = None, item_success = True\<rparr>]"
        "ok + 1" bad ps1]
    show ?thesis
      unfolding up using s Inr b
      by (auto simp: summary_def dispatch_ok_def)
  qed
qed

lemma single_failure_counts:
  assumes "k < length bs" "\<not> bs ! k" "\<forall>j<length bs. j \<noteq> k \<longrightarrow> bs ! j"
  shows "length (filter Not bs) = 1 \<and> length (filter (\<lambda>b. b) bs) = length bs - 1"
proof -
  have "bs = replicate k True @ False # replicate (length bs - Suc k) True"
    using assms by (intro nth_equalityI) (auto simp: nth_append nth_Cons split: nat.splits)
  then obtain m where "bs = replicate k True @ False # replicate m True"
    and "length bs = k + Suc m"
    by (metis length_Cons length_append length_replicate)
  then show ?thesis by simp
qed

text \<open>
  What the loop does for notifications that all have a body: it returns a result for
  the whole list whatever the single dispatches do.  The items are dispatched in list
  order, each one on the providers as the items before it left them (\<open>outcomes\<close>,
  \<open>providers_after\<close>); the result holds one entry for every notification, the entry
  at position \<open>j\<close> carries index \<open>j\<close> and the success flag of the dispatch of item
  \<open>j\<close>; \<open>total\<close> is the length of the list, \<open>successful\<close> and \<open>failed\<close> count the
  dispatches that returned and that threw.  When exactly one item \<open>k\<close> fails,
  \<open>successful = N - 1\<close> and \<open>failed = 1\<close>.
\<close>

lemma bulk_with_bodies:
  assumes "\<forall>n\<in>set ns. body n \<noteq> None"
  shows "\<exists>r.
           sendBulkNotifications ps ns opts = (Inr r, providers_after ps ns opts) \<and>
           total r = length ns \<and>
           map index (bulk_results r) = [0..<length ns] \<and>
           map item_success (bulk_results r) = outcomes ps ns opts \<and>
           successful r = length (filter (\<lambda>b. b) (outcomes ps ns opts)) \<and>
           failed r = length (filter Not (outcomes ps ns opts)) \<and>
           successful r + failed r = length ns \<and>
           (\<forall>k. k < length ns \<and> \<not> outcomes ps ns opts ! k \<and>
                (\<forall>j<length ns. j \<noteq> k \<longrightarrow> outcomes ps ns opts ! j) \<longrightarrow>
                successful r = length ns - 1 \<and> failed r = 1)"
proof -
  from sendBulk_from_items [OF assms, of 0 opts "[]" 0 0 ps] obtain new where
    run: "sendBulk_from 0 ns opts [] 0 0 ps =
       (Inr (new, length (filter (\<lambda>b. b) (outcomes ps ns opts)),
             length (filter Not (outcomes ps ns opts))), providers_after ps ns opts)"
    and idx: "map index new = [0..<length ns]"
    and flags: "map item_success new = outcomes ps ns opts"
    by auto
  have sum: "length (filter (\<lambda>b. b) (outcomes ps ns opts)) +
             length (filter Not (outcomes ps ns opts)) = length ns"
    using sum_length_filter_compl [of "\<lambda>b. b" "outcomes ps ns opts"] by (simp add: comp_def)
  have one: "length (filter (\<lambda>b. b) (outcomes ps ns opts)) = length ns - 1 \<and>
             length (filter Not (outcomes ps ns opts)) = 1"
    if "k < length ns \<and> \<not> outcomes ps ns opts ! k \<and>
        (\<forall>j<length ns. j \<noteq> k \<longrightarrow> outcomes ps ns opts ! j)" for k
    using single_failure_counts [of k "outcomes ps ns opts"] that by simp
  show ?thesis
    unfolding sendBulkNotifications_def run
    using idx flags sum one by auto
qed

lemma picky_outcomes: "outcomes [PusherProvider True picky] batch no_options = [True, False, True]"
  by (simp add: batch_def dispatch_ok_def sendNotification_def sendWithFailover_def
        no_options_def hello_def bad_news_def isEnabled_def canHandle_def PusherProvider_def
        picky_def sendWithRetry_def sendWithRetry_from.simps send_def delay_def getName_def)

lemma bulk_with_bodies_example:
  "\<exists>r.
      sendBulkNotifications [PusherProvider True picky] batch no_options =
        (Inr r, providers_after [PusherProvider True picky] batch no_options) \<and>
      total r = 3 \<and> successful r = 2 \<and> failed r = 1 \<and>
      map index (bulk_results r) = [0, 1, 2] \<and>
      map item_success (bulk_results r) = [True, False, True]"
proof -
  have b: "\<forall>n\<in>set batch. body n \<noteq> None" by (simp add: batch_def hello_def bad_news_def)
  have len: "length batch = 3" by (simp add: batch_def)
  have upt: "[0..<3] = [0, 1, 2::nat]" by (simp add: upt_rec)
  from bulk_with_bodies [OF b, of "[PusherProvider True picky]" no_options]
  show ?thesis
    by (auto simp add: len upt picky_outcomes)
qed

text \<open>
  Claim C7 at an item without a body.  A notification that has a title only is
  accepted by \<open>validateNotification\<close>, and its dispatch succeeds.  In
  \<open>sendBulkNotifications\<close> the entry built after that success reads
  \<open>notification.body.substring\<close> and throws; the \<open>catch\<close> handler reads it again
  and throws out of the loop.  The call fails with that \<open>TypeError\<close> after the first
  item was sent (one invocation of \<open>send\<close>), no result is returned, and the second
  item is never dispatched, where the claim has every item processed and one item's
  failure never ending the batch.
\<close>

theorem bulk_aborts_without_body:
  "validateNotification (PusherProvider True delivered) title_only = Inr True \<and>
   dispatch_ok [PusherProvider True delivered] title_only no_options \<and>
   dispatch_ok [PusherProvider True delivered] hello no_options \<and>
   sendBulkNotifications [PusherProvider True delivered] [title_only, hello] no_options =
     (Inl (TypeError undefined_substring), [(PusherProvider True delivered)\<lparr>send_calls := 1\<rparr>])"
proof -
  have v: "validateNotification (PusherProvider True delivered) title_only = Inr True"
    by (simp add: validateNotification_def title_only_def truthy_def)
  have d: "sendNotification [PusherProvider True delivered] n no_options =
     (Inr \<lparr>success = True, results = [Some ''delivered''], errors = None, totalProviders = 1,
           successfulProviders = 1, failedProviders = 0, skippedProviders = Some 0,
           usedProvider = Some ''Pusher''\<rparr>,
      [(PusherProvider True delivered)\<lparr>send_calls := 1\<rparr>])" for n
    by (simp add: sendNotification_def sendWithFailover_def no_options_def isEnabled_def
          canHandle_def PusherProvider_def sendWithRetry_def sendWithRetry_from.simps send_def
          delivered_def getName_def)
  have s: "summary 50 title_only = Inl (TypeError undefined_substring)"
    by (simp add: summary_def title_only_def)
  show ?thesis
    by (simp add: v dispatch_ok_def d sendBulkNotifications_def s)
qed

section \<open>The job registry\<close>

lemma map_of_jobs_set: "map_of (jobs_set k v m) k = Some v"
  by (induction m) auto

lemma list_all_jobs_set: "list_all P m \<Longrightarrow> P (k, v) \<Longrightarrow> list_all P (jobs_set k v m)"
  by (induction m) auto

lemma list_all_jobs_delete: "list_all P m \<Longrightarrow> list_all P (jobs_delete k m)"
  by (induction m) (auto simp: jobs_delete_def)

lemma keys_jobs_delete: "k \<notin> fst ` set (jobs_delete k m)"
  by (auto simp: jobs_delete_def)

lemma map_of_jobs_delete: "map_of (jobs_delete k m) k = None"
  by (induction m) (auto simp: jobs_delete_def)

lemma active_ids_keys: "registry_ok s \<Longrightarrow> active_ids gs s = map fst (jobs s)"
  by (auto simp: registry_ok_def active_ids_def getActiveJobs_def view_def list_all_iff job_ok_def)

text \<open>Every operation keeps the registry as \<open>scheduleNotification\<close> builds it.\<close>

lemma new_registry_ok: "registry_ok SchedulerService_new"
  by (simp add: registry_ok_def SchedulerService_new_def)

lemma start_registry_ok: "registry_ok s \<Longrightarrow> registry_ok (start s)"
  by (simp add: registry_ok_def start_def)

lemma stop_registry_ok: "registry_ok (stop s)"
  by (simp add: registry_ok_def stop_def)

lemma scheduleNotification_registry_ok:
  "registry_ok s \<Longrightarrow> registry_ok (snd (scheduleNotification e s n sch opts))"
  by (auto simp add: scheduleNotification_def registry_ok_def job_ok_def
        new_job_def new_task_def task_started_def split: option.split
        intro!: list_all_jobs_set)

lemma removeJob_registry_ok: "registry_ok s \<Longrightarrow> registry_ok (snd (removeJob s k))"
  by (auto simp: removeJob_def registry_ok_def intro: list_all_jobs_delete split: option.splits)

lemma task_callback_scheduler:
  "fst (task_callback t s ps) =
     (if task_frequency t = ''once'' then snd (removeJob s (task_jobId t)) else s)"
  by (auto simp: task_callback_def split: prod.splits sum.splits)

lemma fire_registered:
  assumes "registry_ok s" "map_of (jobs s) k = Some j" "task_running (job_task j)"
  shows "fst (fire k s ps) =
           (if sched_frequency (job_schedule j) = ''once''
            then s\<lparr>jobs := jobs_delete k (jobs s)\<rparr> else s)"
proof -
  from assms(2) have "(k, j) \<in> set (jobs s)" by (rule map_of_SomeD)
  with assms(1) have "job_ok (k, j)" by (auto simp: registry_ok_def list_all_iff)
  then show ?thesis
    using assms(2,3)
    by (simp add: fire_def task_callback_scheduler removeJob_def job_ok_def)
qed

lemma fire_registry_ok: "registry_ok s \<Longrightarrow> registry_ok (fst (fire k s ps))"
  by (cases "map_of (jobs s) k")
     (auto simp: fire_def registry_ok_def task_callback_scheduler removeJob_def
           intro: list_all_jobs_delete split: option.splits)

lemma apply_op_registry_ok: "registry_ok (fst st) \<Longrightarrow> registry_ok (fst (apply_op st op))"
  by (cases st; cases op)
     (simp_all add: start_registry_ok stop_registry_ok scheduleNotification_registry_ok
        removeJob_registry_ok fire_registry_ok)

lemma run_ops_registry_ok: "registry_ok (fst st) \<Longrightarrow> registry_ok (fst (run_ops st ops))"
  unfolding run_ops_def
  by (induction ops arbitrary: st) (simp_all add: apply_op_registry_ok)

text \<open>
  Claim C8.  In a registry built by the scheduler's own operations, take a job that
  is registered under \<open>k\<close>, hence listed among the active jobs, and whose task is
  running, so that its trigger fires.  When it fires, on any providers and so whether
  the dispatch succeeds or fails: a job whose frequency is \<open>once\<close> is no longer among
  the active jobs and cannot be fetched; a job whose frequency is \<open>daily\<close> is still
  among the active jobs and is fetched unchanged.
\<close>

theorem once_removed_daily_kept:
  assumes "registry_ok s" and "map_of (jobs s) k = Some j" and "task_running (job_task j)"
  shows "k \<in> set (active_ids getStatus s) \<and>
         (sched_frequency (job_schedule j) = ''once'' \<longrightarrow>
            k \<notin> set (active_ids getStatus (fst (fire k s ps))) \<and>
            getJob getStatus (fst (fire k s ps)) k = None) \<and>
         (sched_frequency (job_schedule j) = ''daily'' \<longrightarrow>
            k \<in> set (active_ids getStatus (fst (fire k s ps))) \<and>
            getJob getStatus (fst (fire k s ps)) k = Some (view getStatus j))"
proof -
  have ok': "registry_ok (fst (fire k s ps))" using assms(1) by (rule fire_registry_ok)
  have in_s: "k \<in> set (map fst (jobs s))"
    using map_of_SomeD [OF assms(2)] by force
  have before: "k \<in> set (active_ids getStatus s)"
    using in_s by (simp add: active_ids_keys [OF assms(1)])
  have once: "k \<notin> set (active_ids getStatus (fst (fire k s ps))) \<and>
              getJob getStatus (fst (fire k s ps)) k = None"
    if "sched_frequency (job_schedule j) = ''once''"
    unfolding active_ids_keys [OF ok']
    using that
    by (simp add: fire_registered [OF assms] getJob_def map_of_jobs_delete keys_jobs_delete)
  have daily: "k \<in> set (active_ids getStatus (fst (fire k s ps))) \<and>
               getJob getStatus (fst (fire k s ps)) k = Some (view getStatus j)"
    if "sched_frequency (job_schedule j) = ''daily''"
    using that before assms(2) by (simp add: fire_registered [OF assms] getJob_def)
  from before once daily show ?thesis by blast
qed

lemma started_running: "running started" "jobs started = []" "registry_ok started"
  by (simp_all add: started_def start_def SchedulerService_new_def registry_ok_def)

lemma time_0900: "time_accepted (at_time ''09:00'' f)"
  by (simp add: time_accepted_def at_time_def truthy_def time_of_def time_pattern_def digits_def)

lemma utc_accepted:
  "timezone_of (at_time t f) = ''UTC''"
  "cron_schedule env0 c ''UTC'' = None" "task_start env0 c z = None"
  by (simp_all add: timezone_of_def at_time_def env0_def unknown_zone_def)

lemma example_states:
  "registry_ok once_state"
  "map_of (jobs once_state) (new_jobId env0) =
     Some (task_started (new_job env0 hello (at_time ''09:00'' ''once'') no_options
                           ''Hello there''))"
  "registry_ok daily_state"
  "map_of (jobs daily_state) (new_jobId env0) =
     Some (task_started (new_job env0 hello (at_time ''09:00'' ''daily'') no_options
                           ''Hello there''))"
  unfolding once_state_def daily_state_def
  by (simp_all add: scheduleNotification_registry_ok started_running)
     (simp_all add: scheduleNotification_def started_running time_0900 hello_def map_of_jobs_set
        utc_accepted)

theorem once_removed_daily_kept_witness:
  "registry_ok once_state \<and>
   map_of (jobs once_state) (new_jobId env0) =
     Some (task_started (new_job env0 hello (at_time ''09:00'' ''once'') no_options
                           ''Hello there'')) \<and>
   task_running (job_task (task_started (new_job env0 hello (at_time ''09:00'' ''once'')
                                           no_options ''Hello there''))) \<and>
   new_jobId env0 \<in> set (active_ids None once_state) \<and>
   new_jobId env0 \<notin> set (active_ids None (fst (fire (new_jobId env0) once_state team))) \<and>
   new_jobId env0 \<notin> set (active_ids None (fst (fire (new_jobId env0) once_state losing_team))) \<and>
   registry_ok daily_state \<and>
   map_of (jobs daily_state) (new_jobId env0) =
     Some (task_started (new_job env0 hello (at_time ''09:00'' ''daily'') no_options
                           ''Hello there'')) \<and>
   task_running (job_task (task_started (new_job env0 hello (at_time ''09:00'' ''daily'')
                                           no_options ''Hello there''))) \<and>
   new_jobId env0 \<in> set (active_ids None (fst (fire (new_jobId env0) daily_state team))) \<and>
   new_jobId env0 \<in> set (active_ids None (fst (fire (new_jobId env0) daily_state losing_team)))"
proof -
  have f: "sched_frequency (job_schedule (task_started
             (new_job env0 hello (at_time ''09:00'' f) no_options ''Hello there''))) = f" for f
    by (simp add: new_job_def task_started_def frequency_of_def at_time_def)
  have r: "task_running (job_task (task_started j))" for j
    by (simp add: task_started_def)
  from once_removed_daily_kept [OF example_states(1,2) r, of None team]
       once_removed_daily_kept [OF example_states(1,2) r, of None losing_team]
       once_removed_daily_kept [OF example_states(3,4) r, of None team]
       once_removed_daily_kept [OF example_states(3,4) r, of None losing_team]
       example_states r
  show ?thesis
    by (simp add: f)
qed

section \<open>A scheduler that is not running\<close>

lemma idle_step:
  "jobs s = [] \<Longrightarrow> \<not> running s \<Longrightarrow> op \<noteq> Start \<Longrightarrow>
   jobs (fst (apply_op (s, ps) op)) = [] \<and> \<not> running (fst (apply_op (s, ps) op))"
  by (cases op)
     (auto simp: stop_def scheduleNotification_def removeJob_def fire_def)

lemma idle_run:
  "jobs (fst st) = [] \<Longrightarrow> \<not> running (fst st) \<Longrightarrow> Start \<notin> set ops \<Longrightarrow>
   jobs (fst (run_ops st ops)) = [] \<and> \<not> running (fst (run_ops st ops))"
  unfolding run_ops_def
proof (induction ops arbitrary: st)
  case Nil
  then show ?case by simp
next
  case (Cons op ops)
  obtain s ps where st: "st = (s, ps)" by (cases st)
  have "jobs (fst (apply_op (s, ps) op)) = [] \<and> \<not> running (fst (apply_op (s, ps) op))"
    using Cons.prems st by (intro idle_step) auto
  with Cons.IH [of "apply_op st op"] Cons.prems(3) st show ?case by simp
qed

text \<open>
  Claim C10.  On a scheduler that is not running (as constructed, or after \<open>stop\<close>),
  \<open>scheduleNotification\<close> throws \<open>Scheduler service is not running\<close> for every
  notification, schedule and options, and leaves the scheduler as it was, so no job is
  registered.  After \<open>stop\<close> the registry is empty and the scheduler is not running,
  and both stay so under every sequence of operations that does not contain \<open>start\<close>.
\<close>

theorem not_running_rejects:
  "(\<not> running s \<longrightarrow>
      scheduleNotification e s n sch opts =
        (Inl (Error ''Scheduler service is not running''), s)) \<and>
   \<not> running SchedulerService_new \<and> jobs SchedulerService_new = [] \<and>
   jobs (stop s0) = [] \<and> \<not> running (stop s0) \<and> getActiveJobs getStatus (stop s0) = [] \<and>
   (Start \<notin> set ops \<longrightarrow>
      jobs (fst (run_ops (stop s0, ps) ops)) = [] \<and>
      \<not> running (fst (run_ops (stop s0, ps) ops)) \<and>
      getActiveJobs getStatus (fst (run_ops (stop s0, ps) ops)) = [])"
  using idle_run [of "(stop s0, ps)" ops]
  by (simp add: scheduleNotification_def stop_def SchedulerService_new_def getActiveJobs_def)

theorem not_running_rejects_witness:
  "\<not> running (stop once_state) \<and>
   scheduleNotification env0 (stop once_state) hello (at_time ''09:00'' ''once'') no_options =
     (Inl (Error ''Scheduler service is not running''), stop once_state) \<and>
   Start \<notin> set idle_ops \<and>
   jobs (fst (run_ops (stop once_state, team) idle_ops)) = [] \<and>
   \<not> running (fst (run_ops (stop once_state, team) idle_ops))"
proof -
  have a: "\<not> running (stop once_state)" by (simp add: stop_def)
  have b: "Start \<notin> set idle_ops" by (simp add: idle_ops_def)
  from not_running_rejects [of "stop once_state" env0 hello "at_time ''09:00'' ''once''"
         no_options once_state None idle_ops team] a b
  show ?thesis by simp
qed

section \<open>What the schedule operation checks\<close>

lemma time_pattern_examples:
  "\<not> test time_pattern ''25:00''" "\<not> test time_pattern []" "test time_pattern ''9:00''"
  "test time_pattern ''09:00''" "\<not> test time_pattern ''24:00''" "\<not> test time_pattern ''09:60''"
  by (simp_all add: time_pattern_def digits_def)

lemma time_accepted_examples:
  "\<not> time_accepted \<lparr>time = Some ''25:00'', timezone = tz, frequency = f\<rparr>"
  "\<not> time_accepted \<lparr>time = Some [], timezone = tz, frequency = f\<rparr>"
  "time_accepted \<lparr>time = Some ''9:00'', timezone = tz, frequency = f\<rparr>"
  by (simp_all add: time_accepted_def truthy_def time_of_def time_pattern_def digits_def)

lemma show_nat_examples:
  "show_nat 0 = ''0''" "show_nat 3 = ''3''" "show_nat 9 = ''9''" "show_nat 11 = ''11''"
  "show_nat 1793613600000 = ''1793613600000''"
  by (simp_all add: digits_def)

lemma env0_values:
  "new_jobId env0 = ''notif_1793613600000_k3x9q2m1z''"
  "hours_of (at_time ''09:00'' f) = 9" "minutes_of (at_time ''09:00'' f) = 0"
  "hours_of (at_time ''9:00'' f) = 9" "minutes_of (at_time ''9:00'' f) = 0"
  by (simp_all add: new_jobId_def env0_def show_nat_examples hours_of_def minutes_of_def
        at_time_def time_of_def split_time_def Number_def digit_value_def digits_def)

text \<open>
  Claim C5 at a frequency outside \<open>once\<close> and \<open>daily\<close>.  \<open>validateSchedule\<close> rejects
  the schedule \<open>09:00\<close>, \<open>UTC\<close>, \<open>weekly\<close>, but \<open>scheduleNotification\<close> does not call
  it and checks the time format only: on a running scheduler it returns a result,
  treating the frequency as one-time, and registers a job.
\<close>

theorem unchecked_frequency_is_scheduled:
  "validateSchedule (\<lambda>z. z = ''UTC'') (Some (at_time ''09:00'' ''weekly'')) =
     Inl (Error ''Frequency must be \"once\" or \"daily\"'') \<and>
   fst (scheduleNotification env0 started hello (at_time ''09:00'' ''weekly'') no_options) =
     Inr \<lparr>jobId = ''notif_1793613600000_k3x9q2m1z'', scheduledFor = ''2026-11-03 09:00:00 UTC'',
           result_frequency = ''weekly'', result_timezone = ''UTC'',
           cronExpression = ''0 9 3 11 *''\<rparr> \<and>
   map fst (jobs (snd (scheduleNotification env0 started hello (at_time ''09:00'' ''weekly'')
                         no_options))) =
     [''notif_1793613600000_k3x9q2m1z'']"
proof -
  have sch: "time_of (at_time ''09:00'' ''weekly'') = ''09:00''"
    "timezone_of (at_time ''09:00'' ''weekly'') = ''UTC''"
    "frequency_of (at_time ''09:00'' ''weekly'') = ''weekly''"
    "truthy (time (at_time ''09:00'' ''weekly''))"
    by (simp_all add: time_of_def timezone_of_def frequency_of_def at_time_def truthy_def)
  have v: "validateSchedule (\<lambda>z. z = ''UTC'') (Some (at_time ''09:00'' ''weekly'')) =
     Inl (Error ''Frequency must be \"once\" or \"daily\"'')"
    by (simp add: validateSchedule_def sch time_pattern_def digits_def)
  have t: "trigger_rule env0 (at_time ''09:00'' ''weekly'') =
     (''0 9 3 11 *'', ''2026-11-03 09:00:00 UTC'')"
    by (simp add: trigger_rule_def sch env0_values env0_def digits_def)
  have r: "scheduleNotification env0 started hello (at_time ''09:00'' ''weekly'') no_options =
     (Inr \<lparr>jobId = ''notif_1793613600000_k3x9q2m1z'', scheduledFor = ''2026-11-03 09:00:00 UTC'',
           result_frequency = ''weekly'', result_timezone = ''UTC'',
           cronExpression = ''0 9 3 11 *''\<rparr>,
      started\<lparr>jobs := [(''notif_1793613600000_k3x9q2m1z'',
         task_started
           (new_job env0 hello (at_time ''09:00'' ''weekly'') no_options ''Hello there''))]\<rparr>)"
    by (simp add: scheduleNotification_def started_running time_0900 hello_def sch t env0_values
          utc_accepted)
  show ?thesis
    unfolding v r by simp
qed

text \<open>
  An unknown zone is not looked at by \<open>scheduleNotification\<close> itself.  With a cron
  library that rejects it in \<open>cron.schedule\<close> the call throws the library's
  \<open>RangeError\<close> and nothing is registered; with one that rejects it in
  \<open>task.start()\<close> the call throws after the job was stored, and the job stays
  registered with a task that is not running.
\<close>

lemma unknown_zone_examples:
  "scheduleNotification env0 started hello on_mars no_options =
     (Inl (RangeError ''Invalid time zone specified: Mars/Phobos''), started)"
  "fst (scheduleNotification env_late started hello on_mars no_options) =
     Inl (RangeError ''Invalid time zone specified: Mars/Phobos'')"
  "map fst (jobs (snd (scheduleNotification env_late started hello on_mars no_options))) =
     [new_jobId env_late]"
  by (simp_all add: scheduleNotification_def started_running on_mars_def time_accepted_examples
        timezone_of_def env0_def env_late_def unknown_zone_def hello_def)

text \<open>
  Claim C6, as the code has it.  On a running scheduler the time strings \<open>25:00\<close> and
  the empty string are rejected with \<open>Invalid time format. Use HH:MM format\<close>, whatever
  the rest of the request, and the scheduler is left as it was, so no job is added.
  The string \<open>9:00\<close> passes the format check, since the pattern allows an hour of one
  digit: the call is then decided by what follows the check, and when the cron library
  accepts the expression and the zone and the notification has a body, it returns and
  a job is registered under the identifier it returns.
\<close>

theorem time_format_check:
  assumes "running s"
  shows "scheduleNotification e s n \<lparr>time = Some ''25:00'', timezone = tz, frequency = f\<rparr> opts =
           (Inl (Error ''Invalid time format. Use HH:MM format''), s) \<and>
         scheduleNotification e s n \<lparr>time = Some [], timezone = tz, frequency = f\<rparr> opts =
           (Inl (Error ''Invalid time format. Use HH:MM format''), s) \<and>
         time_accepted \<lparr>time = Some ''9:00'', timezone = tz, frequency = f\<rparr> \<and>
         (cron_schedule e
              (fst (trigger_rule e \<lparr>time = Some ''9:00'', timezone = tz, frequency = f\<rparr>))
              (timezone_of \<lparr>time = Some ''9:00'', timezone = tz, frequency = f\<rparr>) = None \<and>
          task_start e
              (fst (trigger_rule e \<lparr>time = Some ''9:00'', timezone = tz, frequency = f\<rparr>))
              (timezone_of \<lparr>time = Some ''9:00'', timezone = tz, frequency = f\<rparr>) = None \<and>
          body n \<noteq> None \<longrightarrow>
            (\<exists>r s'. scheduleNotification e s n \<lparr>time = Some ''9:00'', timezone = tz, frequency = f\<rparr>
                       opts = (Inr r, s') \<and>
                     jobId r \<in> fst ` set (jobs s') \<and>
                     map_of (jobs s') (jobId r) \<noteq> None))"
proof -
  let ?sch = "\<lparr>time = Some ''9:00'', timezone = tz, frequency = f\<rparr>"
  have ok: "\<exists>r s'. scheduleNotification e s n ?sch opts = (Inr r, s') \<and>
                   jobId r \<in> fst ` set (jobs s') \<and>
                   map_of (jobs s') (jobId r) \<noteq> None"
    if "cron_schedule e (fst (trigger_rule e ?sch)) (timezone_of ?sch) = None \<and>
        task_start e (fst (trigger_rule e ?sch)) (timezone_of ?sch) = None \<and>
        body n \<noteq> None"
  proof -
    from that obtain b where b: "body n = Some b" by auto
    have "map_of (jobs_set (new_jobId e) (task_started (new_job e n ?sch opts b)) (jobs s))
            (new_jobId e) = Some (task_started (new_job e n ?sch opts b))"
      by (rule map_of_jobs_set)
    moreover from this
    have "new_jobId e \<in>
            fst ` set (jobs_set (new_jobId e) (task_started (new_job e n ?sch opts b)) (jobs s))"
      by (metis map_of_eq_None_iff option.distinct(1))
    ultimately show ?thesis
      using assms b that by (simp add: scheduleNotification_def time_accepted_examples)
  qed
  show ?thesis
    using assms ok by (simp add: scheduleNotification_def time_accepted_examples)
qed

text \<open>
  The claim as written has \<open>9:00\<close> rejected.  On a running scheduler, with the zone
  \<open>UTC\<close>, the request is accepted and its job is registered.
\<close>

theorem one_digit_hour_counterexample:
  "fst (scheduleNotification env0 started hello (at_time ''9:00'' ''once'') no_options) =
     Inr \<lparr>jobId = ''notif_1793613600000_k3x9q2m1z'', scheduledFor = ''2026-11-03 09:00:00 UTC'',
           result_frequency = ''once'', result_timezone = ''UTC'',
           cronExpression = ''0 9 3 11 *''\<rparr> \<and>
   map fst (jobs (snd (scheduleNotification env0 started hello (at_time ''9:00'' ''once'')
                         no_options))) =
     [''notif_1793613600000_k3x9q2m1z'']"
proof -
  have sch: "frequency_of (at_time ''9:00'' ''once'') = ''once''"
    "time_accepted (at_time ''9:00'' ''once'')"
    by (simp_all add: frequency_of_def at_time_def time_accepted_examples)
  have t: "trigger_rule env0 (at_time ''9:00'' ''once'') =
     (''0 9 3 11 *'', ''2026-11-03 09:00:00 UTC'')"
    by (simp add: trigger_rule_def sch env0_values env0_def digits_def)
  show ?thesis
    by (simp add: scheduleNotification_def started_running hello_def sch t env0_values
          utc_accepted)
qed

theorem time_format_check_witness:
  "running started \<and> body hello \<noteq> None \<and>
   cron_schedule env0
     (fst (trigger_rule env0
             \<lparr>time = Some ''9:00'', timezone = Some ''UTC'', frequency = Some ''once''\<rparr>))
     (timezone_of \<lparr>time = Some ''9:00'', timezone = Some ''UTC'', frequency = Some ''once''\<rparr>) =
     None \<and>
   task_start env0
     (fst (trigger_rule env0
             \<lparr>time = Some ''9:00'', timezone = Some ''UTC'', frequency = Some ''once''\<rparr>))
     (timezone_of \<lparr>time = Some ''9:00'', timezone = Some ''UTC'', frequency = Some ''once''\<rparr>) =
     None \<and>
   scheduleNotification env0 started hello
       \<lparr>time = Some ''25:00'', timezone = Some ''UTC'', frequency = Some ''once''\<rparr> no_options =
     (Inl (Error ''Invalid time format. Use HH:MM format''), started) \<and>
   scheduleNotification env0 started hello
       \<lparr>time = Some [], timezone = Some ''UTC'', frequency = Some ''once''\<rparr> no_options =
     (Inl (Error ''Invalid time format. Use HH:MM format''), started) \<and>
   (\<exists>r s'. scheduleNotification env0 started hello
              \<lparr>time = Some ''9:00'', timezone = Some ''UTC'', frequency = Some ''once''\<rparr>
              no_options = (Inr r, s') \<and>
            jobId r \<in> fst ` set (jobs s') \<and>
            map_of (jobs s') (jobId r) \<noteq> None)"
proof -
  have b: "body hello \<noteq> None" by (simp add: hello_def)
  have c: "cron_schedule env0 x
     (timezone_of \<lparr>time = Some ''9:00'', timezone = Some ''UTC'', frequency = Some ''once''\<rparr>) =
     None"
    "task_start env0 x
     (timezone_of \<lparr>time = Some ''9:00'', timezone = Some ''UTC'', frequency = Some ''once''\<rparr>) =
     None" for x
    by (simp_all add: timezone_of_def utc_accepted)
  from time_format_check [OF started_running(1), of env0 hello "Some ''UTC''" "Some ''once''"
         no_options] b c started_running(1)
  show ?thesis by blast
qed

end
